theory Spec2Isabelle
  imports Complex_Main "HOL-Library.Sublist"
begin

section \<open>Strings\<close>

text \<open>
  A JavaScript string is modelled by the bytes of its UTF-8 encoding, so that the literals of
  \<^verbatim>\<open>script.js\<close> are the byte sequences of the file. The program concatenates strings, compares
  them with \<^verbatim>\<open>===\<close>, tests them for emptiness and searches them for ASCII tokens; on well-formed
  text all four agree with the same operation on the encoding.
\<close>

definition lower_char :: "char \<Rightarrow> char" where
  "lower_char c =
     (case map_of (zip ''ABCDEFGHIJKLMNOPQRSTUVWXYZ'' ''abcdefghijklmnopqrstuvwxyz'') c of
        Some l \<Rightarrow> l
      | None \<Rightarrow> c)"

text \<open>
  The encodings of U+212A (Kelvin sign), U+0130 (capital I with dot above) and U+0307
  (combining dot above).
\<close>

definition kelvin_sign :: string where
  "kelvin_sign = [CHR 0xE2, CHR 0x84, CHR 0xAA]"

definition dotted_capital_i :: string where
  "dotted_capital_i = [CHR 0xC4, CHR 0xB0]"

definition combining_dot_above :: string where
  "combining_dot_above = [CHR 0xCC, CHR 0x87]"

text \<open>
  \<^verbatim>\<open>s.toLowerCase()\<close>, as far as ASCII text in the result goes. The ASCII capitals become small
  letters. Of the characters beyond ASCII, JavaScript lower-cases exactly two to text with an
  ASCII letter in it: the Kelvin sign to \<^verbatim>\<open>k\<close>, and the capital I with dot above to \<^verbatim>\<open>i\<close>
  followed by the combining dot above. Every other character beyond ASCII is kept here;
  JavaScript maps it to characters beyond ASCII again, which no ASCII token meets, so a search
  of the result for an ASCII token comes out as in JavaScript. In UTF-8 a lead byte is never a
  continuation byte, so the two encodings are found only where the characters are.
\<close>

fun toLowerCase :: "string \<Rightarrow> string" where
  "toLowerCase [] = []"
| "toLowerCase (c # cs) =
     (if prefix kelvin_sign (c # cs) then ''k'' @ toLowerCase (drop 2 cs)
      else if prefix dotted_capital_i (c # cs)
      then ''i'' @ combining_dot_above @ toLowerCase (drop 1 cs)
      else lower_char c # toLowerCase cs)"

text \<open>\<^verbatim>\<open>haystack.includes(needle)\<close>: the needle occurs as a contiguous run of the haystack.\<close>

fun str_includes :: "string \<Rightarrow> string \<Rightarrow> bool" where
  "str_includes [] needle = (needle = [])"
| "str_includes (c # cs) needle = (prefix needle (c # cs) \<or> str_includes cs needle)"

text \<open>\<^verbatim>\<open>s.startsWith(p)\<close>.\<close>

definition startsWith :: "string \<Rightarrow> string \<Rightarrow> bool" where
  "startsWith s p = prefix p s"

text \<open>A string is truthy when it is not empty.\<close>

definition truthy :: "string \<Rightarrow> bool" where
  "truthy s = (s \<noteq> [])"

section \<open>The file transcription stub\<close>

text \<open>
  \<^verbatim>\<open>this.languageMapping\<close>, in the order of the object literal, which is the order
  \<^verbatim>\<open>Object.keys\<close> enumerates.
\<close>

definition languageMapping :: "(string \<times> string) list" where
  "languageMapping =
     [(''en-US'', ''en''), (''hi-IN'', ''hi''), (''te-IN'', ''te''), (''ta-IN'', ''ta''),
      (''kn-IN'', ''kn''), (''ml-IN'', ''ml''), (''mr-IN'', ''mr''), (''bn-IN'', ''bn''),
      (''gu-IN'', ''gu'')]"

text \<open>The sample sentences of \<^verbatim>\<open>simulateAudioTranscription\<close>, byte for byte as the source has them.\<close>

definition sample_hi :: string where
  "sample_hi =
     [CHR 0xC3, CHR 0xA0, CHR 0xC2, CHR 0xA4, CHR 0xC2, CHR 0xA8, CHR 0xC3, CHR 0xA0, CHR 0xC2,
      CHR 0xA4, CHR 0xC2, CHR 0xAE, CHR 0xC3, CHR 0xA0, CHR 0xC2, CHR 0xA4, CHR 0xC2, CHR 0xB8,
      CHR 0xC3, CHR 0xA0, CHR 0xC2, CHR 0xA5, CHR 0xC3, CHR 0xA0, CHR 0xC2, CHR 0xA4, CHR 0xC2,
      CHR 0xA4, CHR 0xC3, CHR 0xA0, CHR 0xC2, CHR 0xA5, CHR 0xE2, CHR 0x80, CHR 0xA1, CHR 0x2C,
      CHR 0x20, CHR 0xC3, CHR 0xA0, CHR 0xC2, CHR 0xA4, CHR 0xC2, CHR 0xAF, CHR 0xC3, CHR 0xA0,
      CHR 0xC2, CHR 0xA4, CHR 0xC2, CHR 0xB9, CHR 0x20, CHR 0xC3, CHR 0xA0, CHR 0xC2, CHR 0xA4,
      CHR 0xC3, CHR 0xA0, CHR 0xC2, CHR 0xA4, CHR 0xE2, CHR 0x80, CHR 0xA2, CHR 0x20, CHR 0xC3,
      CHR 0xA0, CHR 0xC2, CHR 0xA4, CHR 0xE2, CHR 0x80, CHR 0x98, CHR 0xC3, CHR 0xA0, CHR 0xC2,
      CHR 0xA4, CHR 0xC2, CHR 0xA1, CHR 0xC3, CHR 0xA0, CHR 0xC2, CHR 0xA4, CHR 0xC2, CHR 0xBF,
      CHR 0xC3, CHR 0xA0, CHR 0xC2, CHR 0xA4, CHR 0xC2, CHR 0xAF, CHR 0xC3, CHR 0xA0, CHR 0xC2,
      CHR 0xA5, CHR 0xE2, CHR 0x80, CHR 0xB9, CHR 0x20, CHR 0xC3, CHR 0xA0, CHR 0xC2, CHR 0xA4,
      CHR 0xC2, CHR 0xAB, CHR 0xC3, CHR 0xA0, CHR 0xC2, CHR 0xA4, CHR 0xC2, CHR 0xBC, CHR 0xC3,
      CHR 0xA0, CHR 0xC2, CHR 0xA4, CHR 0xC2, CHR 0xBE, CHR 0xC3, CHR 0xA0, CHR 0xC2, CHR 0xA4,
      CHR 0xE2, CHR 0x80, CHR 0xA1, CHR 0xC3, CHR 0xA0, CHR 0xC2, CHR 0xA4, CHR 0xC2, CHR 0xB2,
      CHR 0x20, CHR 0xC3, CHR 0xA0, CHR 0xC2, CHR 0xA4, CHR 0xC2, CHR 0xB9, CHR 0xC3, CHR 0xA0,
      CHR 0xC2, CHR 0xA5, CHR 0xCB, CHR 0x86, CHR 0x20, CHR 0xC3, CHR 0xA0, CHR 0xC2, CHR 0xA4,
      CHR 0xC5, CHR 0x93, CHR 0xC3, CHR 0xA0, CHR 0xC2, CHR 0xA4, CHR 0xC2, CHR 0xBF, CHR 0xC3,
      CHR 0xA0, CHR 0xC2, CHR 0xA4, CHR 0xC2, CHR 0xB8, CHR 0xC3, CHR 0xA0, CHR 0xC2, CHR 0xA5,
      CHR 0xE2, CHR 0x80, CHR 0xA1, CHR 0x20, CHR 0xC3, CHR 0xA0, CHR 0xC2, CHR 0xA4, CHR 0xE2,
      CHR 0x80, CHR 0xA6, CHR 0xC3, CHR 0xA0, CHR 0xC2, CHR 0xA4, CHR 0xC2, CHR 0xAA, CHR 0xC3,
      CHR 0xA0, CHR 0xC2, CHR 0xA4, CHR 0xC2, CHR 0xB2, CHR 0xC3, CHR 0xA0, CHR 0xC2, CHR 0xA5,
      CHR 0xE2, CHR 0x80, CHR 0xB9, CHR 0xC3, CHR 0xA0, CHR 0xC2, CHR 0xA4, CHR 0xC2, CHR 0xA1,
      CHR 0x20, CHR 0xC3, CHR 0xA0, CHR 0xC2, CHR 0xA4, CHR 0xE2, CHR 0x80, CHR 0xA2, CHR 0xC3,
      CHR 0xA0, CHR 0xC2, CHR 0xA4, CHR 0xC2, CHR 0xBF, CHR 0xC3, CHR 0xA0, CHR 0xC2, CHR 0xA4,
      CHR 0xC2, CHR 0xAF, CHR 0xC3, CHR 0xA0, CHR 0xC2, CHR 0xA4, CHR 0xC2, CHR 0xBE, CHR 0x20,
      CHR 0xC3, CHR 0xA0, CHR 0xC2, CHR 0xA4, CHR 0xE2, CHR 0x80, CHR 0x94, CHR 0xC3, CHR 0xA0,
      CHR 0xC2, CHR 0xA4, CHR 0xC2, CHR 0xAF, CHR 0xC3, CHR 0xA0, CHR 0xC2, CHR 0xA4, CHR 0xC2,
      CHR 0xBE, CHR 0x20, CHR 0xC3, CHR 0xA0, CHR 0xC2, CHR 0xA4, CHR 0xC2, CHR 0xB9, CHR 0xC3,
      CHR 0xA0, CHR 0xC2, CHR 0xA5, CHR 0xCB, CHR 0x86, CHR 0xC3, CHR 0xA0, CHR 0xC2, CHR 0xA5,
      CHR 0xC2, CHR 0xA4]"

definition sample_te :: string where
  "sample_te =
     [CHR 0xC3, CHR 0xA0, CHR 0xC2, CHR 0xB0, CHR 0xC2, CHR 0xB9, CHR 0xC3, CHR 0xA0, CHR 0xC2,
      CHR 0xB0, CHR 0xC2, CHR 0xB2, CHR 0xC3, CHR 0xA0, CHR 0xC2, CHR 0xB1, CHR 0xE2, CHR 0x80,
      CHR 0xB9, CHR 0x2C, CHR 0x20, CHR 0xC3, CHR 0xA0, CHR 0xC2, CHR 0xB0, CHR 0xE2, CHR 0x80,
      CHR 0xA1, CHR 0xC3, CHR 0xA0, CHR 0xC2, CHR 0xB0, CHR 0xC2, CHR 0xA6, CHR 0xC3, CHR 0xA0,
      CHR 0xC2, CHR 0xB0, CHR 0xC2, CHR 0xBF, CHR 0x20, CHR 0xC3, CHR 0xA0, CHR 0xC2, CHR 0xB0,
      CHR 0xE2, CHR 0x80, CHR 0xA6, CHR 0xC3, CHR 0xA0, CHR 0xC2, CHR 0xB0, CHR 0xC2, CHR 0xAA,
      CHR 0xC3, CHR 0xA0, CHR 0xC2, CHR 0xB1, CHR 0xC3, CHR 0xA0, CHR 0xC2, CHR 0xB0, CHR 0xC2,
      CHR 0xB2, CHR 0xC3, CHR 0xA0, CHR 0xC2, CHR 0xB1, CHR 0xE2, CHR 0x80, CHR 0xB9, CHR 0xC3,
      CHR 0xA0, CHR 0xC2, CHR 0xB0, CHR 0xC2, CHR 0xA1, CHR 0xC3, CHR 0xA0, CHR 0xC2, CHR 0xB1,
      CHR 0x20, CHR 0xC3, CHR 0xA0, CHR 0xC2, CHR 0xB0, CHR 0xC5, CHR 0xA1, CHR 0xC3, CHR 0xA0,
      CHR 0xC2, CHR 0xB1, CHR 0xE2, CHR 0x80, CHR 0xA1, CHR 0xC3, CHR 0xA0, CHR 0xC2, CHR 0xB0,
      CHR 0xC2, CHR 0xAF, CHR 0xC3, CHR 0xA0, CHR 0xC2, CHR 0xB0, CHR 0xC2, CHR 0xAC, CHR 0xC3,
      CHR 0xA0, CHR 0xC2, CHR 0xB0, CHR 0xC2, CHR 0xA1, CHR 0xC3, CHR 0xA0, CHR 0xC2, CHR 0xB0,
      CHR 0xC2, CHR 0xBF, CHR 0xC3, CHR 0xA0, CHR 0xC2, CHR 0xB0, CHR 0xC2, CHR 0xA8, CHR 0x20,
      CHR 0xC3, CHR 0xA0, CHR 0xC2, CHR 0xB0, CHR 0xE2, CHR 0x80, CHR 0xA0, CHR 0xC3, CHR 0xA0,
      CHR 0xC2, CHR 0xB0, CHR 0xC2, CHR 0xA1, CHR 0xC3, CHR 0xA0, CHR 0xC2, CHR 0xB0, CHR 0xC2,
      CHR 0xBF, CHR 0xC3, CHR 0xA0, CHR 0xC2, CHR 0xB0, CHR 0xC2, CHR 0xAF, CHR 0xC3, CHR 0xA0,
      CHR 0xC2, CHR 0xB1, CHR 0xE2, CHR 0x80, CHR 0xB9, CHR 0x20, CHR 0xC3, CHR 0xA0, CHR 0xC2,
      CHR 0xB0, CHR 0xC2, CHR 0xAB, CHR 0xC3, CHR 0xA0, CHR 0xC2, CHR 0xB1, CHR 0xCB, CHR 0x86,
      CHR 0xC3, CHR 0xA0, CHR 0xC2, CHR 0xB0, CHR 0xC2, CHR 0xB2, CHR 0xC3, CHR 0xA0, CHR 0xC2,
      CHR 0xB1, CHR 0x2E]"

definition sample_ta :: string where
  "sample_ta =
     [CHR 0xC3, CHR 0xA0, CHR 0xC2, CHR 0xAE, CHR 0xC2, CHR 0xB5, CHR 0xC3, CHR 0xA0, CHR 0xC2,
      CHR 0xAE, CHR 0xC2, CHR 0xA3, CHR 0xC3, CHR 0xA0, CHR 0xC2, CHR 0xAE, CHR 0xE2, CHR 0x80,
      CHR 0xA2, CHR 0xC3, CHR 0xA0, CHR 0xC2, CHR 0xAF, CHR 0xC3, CHR 0xA0, CHR 0xC2, CHR 0xAE,
      CHR 0xE2, CHR 0x80, CHR 0xA2, CHR 0xC3, CHR 0xA0, CHR 0xC2, CHR 0xAE, CHR 0xC2, CHR 0xAE,
      CHR 0xC3, CHR 0xA0, CHR 0xC2, CHR 0xAF, CHR 0x2C, CHR 0x20, CHR 0xC3, CHR 0xA0, CHR 0xC2,
      CHR 0xAE, CHR 0xE2, CHR 0x80, CHR 0xA1, CHR 0xC3, CHR 0xA0, CHR 0xC2, CHR 0xAE, CHR 0xC2,
      CHR 0xA4, CHR 0xC3, CHR 0xA0, CHR 0xC2, CHR 0xAF, CHR 0x20, CHR 0xC3, CHR 0xA0, CHR 0xC2,
      CHR 0xAE, CHR 0xC2, CHR 0xAA, CHR 0xC3, CHR 0xA0, CHR 0xC2, CHR 0xAE, CHR 0xC2, CHR 0xA4,
      CHR 0xC3, CHR 0xA0, CHR 0xC2, CHR 0xAE, CHR 0xC2, CHR 0xBF, CHR 0xC3, CHR 0xA0, CHR 0xC2,
      CHR 0xAE, CHR 0xC2, CHR 0xB5, CHR 0xC3, CHR 0xA0, CHR 0xC2, CHR 0xAF, CHR 0xE2, CHR 0x80,
      CHR 0xA1, CHR 0xC3, CHR 0xA0, CHR 0xC2, CHR 0xAE, CHR 0xC2, CHR 0xB1, CHR 0xC3, CHR 0xA0,
      CHR 0xC2, CHR 0xAF, CHR 0xC3, CHR 0xA0, CHR 0xC2, CHR 0xAE, CHR 0xC2, CHR 0xB1, CHR 0xC3,
      CHR 0xA0, CHR 0xC2, CHR 0xAE, CHR 0xC2, CHR 0xAA, CHR 0xC3, CHR 0xA0, CHR 0xC2, CHR 0xAF,
      CHR 0xC3, CHR 0xA0, CHR 0xC2, CHR 0xAE, CHR 0xC2, CHR 0xAA, CHR 0xC3, CHR 0xA0, CHR 0xC2,
      CHR 0xAE, CHR 0xC5, CHR 0xB8, CHR 0xC3, CHR 0xA0, CHR 0xC2, CHR 0xAF, CHR 0xC3, CHR 0xA0,
      CHR 0xC2, CHR 0xAE, CHR 0xC5, CHR 0xB8, CHR 0x20, CHR 0xC3, CHR 0xA0, CHR 0xC2, CHR 0xAE,
      CHR 0xE2, CHR 0x80, CHR 0x99, CHR 0xC3, CHR 0xA0, CHR 0xC2, CHR 0xAE, CHR 0xC2, CHR 0xB2,
      CHR 0xC3, CHR 0xA0, CHR 0xC2, CHR 0xAE, CHR 0xC2, CHR 0xBF, CHR 0xC3, CHR 0xA0, CHR 0xC2,
      CHR 0xAE, CHR 0xE2, CHR 0x80, CHR 0xA2, CHR 0xC3, CHR 0xA0, CHR 0xC2, CHR 0xAF, CHR 0x20,
      CHR 0xC3, CHR 0xA0, CHR 0xC2, CHR 0xAE, CHR 0xE2, CHR 0x80, CHR 0xA2, CHR 0xC3, CHR 0xA0,
      CHR 0xC2, CHR 0xAF, CHR 0xE2, CHR 0x80, CHR 0xB9, CHR 0xC3, CHR 0xA0, CHR 0xC2, CHR 0xAE,
      CHR 0xC2, CHR 0xAA, CHR 0xC3, CHR 0xA0, CHR 0xC2, CHR 0xAF, CHR 0xC3, CHR 0xA0, CHR 0xC2,
      CHR 0xAE, CHR 0xC2, CHR 0xAA, CHR 0xC3, CHR 0xA0, CHR 0xC2, CHR 0xAF, CHR 0x2E]"

definition sample_kn :: string where
  "sample_kn =
     [CHR 0xC3, CHR 0xA0, CHR 0xC2, CHR 0xB2, CHR 0xC2, CHR 0xB9, CHR 0xC3, CHR 0xA0, CHR 0xC2,
      CHR 0xB2, CHR 0xC2, CHR 0xB2, CHR 0xC3, CHR 0xA0, CHR 0xC2, CHR 0xB3, CHR 0xE2, CHR 0x80,
      CHR 0xB9, CHR 0x2C, CHR 0x20, CHR 0xC3, CHR 0xA0, CHR 0xC2, CHR 0xB2, CHR 0xE2, CHR 0x80,
      CHR 0xA1, CHR 0xC3, CHR 0xA0, CHR 0xC2, CHR 0xB2, CHR 0xC2, CHR 0xA6, CHR 0xC3, CHR 0xA0,
      CHR 0xC2, CHR 0xB3, CHR 0x20, CHR 0xC3, CHR 0xA0, CHR 0xC2, CHR 0xB2, CHR 0xE2, CHR 0x80,
      CHR 0xA6, CHR 0xC3, CHR 0xA0, CHR 0xC2, CHR 0xB2, CHR 0xC2, CHR 0xAA, CHR 0xC3, CHR 0xA0,
      CHR 0xC2, CHR 0xB3, CHR 0xC3, CHR 0xA0, CHR 0xC2, CHR 0xB2, CHR 0xC2, CHR 0xB2, CHR 0xC3,
      CHR 0xA0, CHR 0xC2, CHR 0xB3, CHR 0xE2, CHR 0x80, CHR 0xB9, CHR 0xC3, CHR 0xA0, CHR 0xC2,
      CHR 0xB2, CHR 0xC2, CHR 0xA1, CHR 0xC3, CHR 0xA0, CHR 0xC2, CHR 0xB3, CHR 0x20, CHR 0xC3,
      CHR 0xA0, CHR 0xC2, CHR 0xB2, CHR 0xC2, CHR 0xAE, CHR 0xC3, CHR 0xA0, CHR 0xC2, CHR 0xB2,
      CHR 0xC2, CHR 0xBE, CHR 0xC3, CHR 0xA0, CHR 0xC2, CHR 0xB2, CHR 0xC2, CHR 0xA1, CHR 0xC3,
      CHR 0xA0, CHR 0xC2, CHR 0xB2, CHR 0xC2, CHR 0xB2, CHR 0xC3, CHR 0xA0, CHR 0xC2, CHR 0xB2,
      CHR 0xC2, CHR 0xBE, CHR 0xC3, CHR 0xA0, CHR 0xC2, CHR 0xB2, CHR 0xC2, CHR 0xA6, CHR 0x20,
      CHR 0xC3, CHR 0xA0, CHR 0xC2, CHR 0xB2, CHR 0xE2, CHR 0x80, CHR 0xA0, CHR 0xC3, CHR 0xA0,
      CHR 0xC2, CHR 0xB2, CHR 0xC2, CHR 0xA1, CHR 0xC3, CHR 0xA0, CHR 0xC2, CHR 0xB2, CHR 0xC2,
      CHR 0xBF, CHR 0xC3, CHR 0xA0, CHR 0xC2, CHR 0xB2, CHR 0xC2, CHR 0xAF, CHR 0xC3, CHR 0xA0,
      CHR 0xC2, CHR 0xB3, CHR 0xE2, CHR 0x80, CHR 0xB9, CHR 0x20, CHR 0xC3, CHR 0xA0, CHR 0xC2,
      CHR 0xB2, CHR 0xC2, CHR 0xAB, CHR 0xC3, CHR 0xA0, CHR 0xC2, CHR 0xB3, CHR 0xCB, CHR 0x86,
      CHR 0xC3, CHR 0xA0, CHR 0xC2, CHR 0xB2, CHR 0xC2, CHR 0xB2, CHR 0xC3, CHR 0xA0, CHR 0xC2,
      CHR 0xB3, CHR 0x2E]"

definition sample_ml :: string where
  "sample_ml =
     [CHR 0xC3, CHR 0xA0, CHR 0xC2, CHR 0xB4, CHR 0xC2, CHR 0xB9, CHR 0xC3, CHR 0xA0, CHR 0xC2,
      CHR 0xB4, CHR 0xC2, CHR 0xB2, CHR 0xC3, CHR 0xA0, CHR 0xC2, CHR 0xB5, CHR 0xE2, CHR 0x80,
      CHR 0xB9, CHR 0x2C, CHR 0x20, CHR 0xC3, CHR 0xA0, CHR 0xC2, CHR 0xB4, CHR 0xE2, CHR 0x80,
      CHR 0xA1, CHR 0xC3, CHR 0xA0, CHR 0xC2, CHR 0xB4, CHR 0xC2, CHR 0xA4, CHR 0xC3, CHR 0xA0,
      CHR 0xC2, CHR 0xB5, CHR 0x20, CHR 0xC3, CHR 0xA0, CHR 0xC2, CHR 0xB4, CHR 0xE2, CHR 0x80,
      CHR 0xA6, CHR 0xC3, CHR 0xA0, CHR 0xC2, CHR 0xB4, CHR 0xC2, CHR 0xAA, CHR 0xC3, CHR 0xA0,
      CHR 0xC2, CHR 0xB5, CHR 0xC3, CHR 0xA2, CHR 0xE2, CHR 0x82, CHR 0xAC, CHR 0xC5, CHR 0x92,
      CHR 0xC3, CHR 0xA0, CHR 0xC2, CHR 0xB4, CHR 0xC2, CHR 0xB2, CHR 0xC3, CHR 0xA0, CHR 0xC2,
      CHR 0xB5, CHR 0xE2, CHR 0x80, CHR 0xB9, CHR 0xC3, CHR 0xA0, CHR 0xC2, CHR 0xB4, CHR 0xC2,
      CHR 0xA1, CHR 0xC3, CHR 0xA0, CHR 0xC2, CHR 0xB5, CHR 0x20, CHR 0xC3, CHR 0xA0, CHR 0xC2,
      CHR 0xB4, CHR 0xC5, CHR 0xA1, CHR 0xC3, CHR 0xA0, CHR 0xC2, CHR 0xB5, CHR 0xE2, CHR 0x80,
      CHR 0xA0, CHR 0xC3, CHR 0xA0, CHR 0xC2, CHR 0xB4, CHR 0xC2, CHR 0xAF, CHR 0xC3, CHR 0xA0,
      CHR 0xC2, CHR 0xB5, CHR 0xC3, CHR 0xA0, CHR 0xC2, CHR 0xB4, CHR 0xC2, CHR 0xA4, CHR 0x20,
      CHR 0xC3, CHR 0xA0, CHR 0xC2, CHR 0xB4, CHR 0xE2, CHR 0x80, CHR 0x9C, CHR 0xC3, CHR 0xA0,
      CHR 0xC2, CHR 0xB4, CHR 0xC2, CHR 0xA1, CHR 0xC3, CHR 0xA0, CHR 0xC2, CHR 0xB4, CHR 0xC2,
      CHR 0xBF, CHR 0xC3, CHR 0xA0, CHR 0xC2, CHR 0xB4, CHR 0xC2, CHR 0xAF, CHR 0xC3, CHR 0xA0,
      CHR 0xC2, CHR 0xB5, CHR 0xE2, CHR 0x80, CHR 0xB9, CHR 0x20, CHR 0xC3, CHR 0xA0, CHR 0xC2,
      CHR 0xB4, CHR 0xC2, CHR 0xAB, CHR 0xC3, CHR 0xA0, CHR 0xC2, CHR 0xB4, CHR 0xC2, CHR 0xAF,
      CHR 0xC3, CHR 0xA0, CHR 0xC2, CHR 0xB4, CHR 0xC2, CHR 0xB2, CHR 0xC3, CHR 0xA0, CHR 0xC2,
      CHR 0xB4, CHR 0xC2, CHR 0xBE, CHR 0xC3, CHR 0xA0, CHR 0xC2, CHR 0xB4, CHR 0xC2, CHR 0xA3,
      CHR 0xC3, CHR 0xA0, CHR 0xC2, CHR 0xB5, CHR 0x2E]"

definition sample_mr :: string where
  "sample_mr =
     [CHR 0xC3, CHR 0xA0, CHR 0xC2, CHR 0xA4, CHR 0xC2, CHR 0xA8, CHR 0xC3, CHR 0xA0, CHR 0xC2,
      CHR 0xA4, CHR 0xC2, CHR 0xAE, CHR 0xC3, CHR 0xA0, CHR 0xC2, CHR 0xA4, CHR 0xC2, CHR 0xB8,
      CHR 0xC3, CHR 0xA0, CHR 0xC2, CHR 0xA5, CHR 0xC3, CHR 0xA0, CHR 0xC2, CHR 0xA4, CHR 0xE2,
      CHR 0x80, CHR 0xA2, CHR 0xC3, CHR 0xA0, CHR 0xC2, CHR 0xA4, CHR 0xC2, CHR 0xBE, CHR 0xC3,
      CHR 0xA0, CHR 0xC2, CHR 0xA4, CHR 0xC2, CHR 0xB0, CHR 0x2C, CHR 0x20, CHR 0xC3, CHR 0xA0,
      CHR 0xC2, CHR 0xA4, CHR 0xC2, CHR 0xB9, CHR 0xC3, CHR 0xA0, CHR 0xC2, CHR 0xA5, CHR 0xE2,
      CHR 0x80, CHR 0xA1, CHR 0x20, CHR 0xC3, CHR 0xA0, CHR 0xC2, CHR 0xA4, CHR 0xE2, CHR 0x80,
      CHR 0xA6, CHR 0xC3, CHR 0xA0, CHR 0xC2, CHR 0xA4, CHR 0xC2, CHR 0xAA, CHR 0xC3, CHR 0xA0,
      CHR 0xC2, CHR 0xA4, CHR 0xC2, CHR 0xB2, CHR 0xC3, CHR 0xA0, CHR 0xC2, CHR 0xA5, CHR 0xE2,
      CHR 0x80, CHR 0xB9, CHR 0xC3, CHR 0xA0, CHR 0xC2, CHR 0xA4, CHR 0xC2, CHR 0xA1, CHR 0x20,
      CHR 0xC3, CHR 0xA0, CHR 0xC2, CHR 0xA4, CHR 0xE2, CHR 0x80, CHR 0xA2, CHR 0xC3, CHR 0xA0,
      CHR 0xC2, CHR 0xA5, CHR 0xE2, CHR 0x80, CHR 0xA1, CHR 0xC3, CHR 0xA0, CHR 0xC2, CHR 0xA4,
      CHR 0xC2, CHR 0xB2, CHR 0xC3, CHR 0xA0, CHR 0xC2, CHR 0xA5, CHR 0xE2, CHR 0x80, CHR 0xA1,
      CHR 0xC3, CHR 0xA0, CHR 0xC2, CHR 0xA4, CHR 0xC2, CHR 0xB2, CHR 0xC3, CHR 0xA0, CHR 0xC2,
      CHR 0xA5, CHR 0xE2, CHR 0x80, CHR 0xA1, CHR 0x20, CHR 0xC3, CHR 0xA0, CHR 0xC2, CHR 0xA4,
      CHR 0xE2, CHR 0x80, CHR 0x98, CHR 0xC3, CHR 0xA0, CHR 0xC2, CHR 0xA4, CHR 0xC2, CHR 0xA1,
      CHR 0xC3, CHR 0xA0, CHR 0xC2, CHR 0xA4, CHR 0xC2, CHR 0xBF, CHR 0xC3, CHR 0xA0, CHR 0xC2,
      CHR 0xA4, CHR 0xE2, CHR 0x80, CHR 0x9C, CHR 0x20, CHR 0xC3, CHR 0xA0, CHR 0xC2, CHR 0xA4,
      CHR 0xC2, CHR 0xAB, CHR 0xC3, CHR 0xA0, CHR 0xC2, CHR 0xA4, CHR 0xC2, CHR 0xBE, CHR 0xC3,
      CHR 0xA0, CHR 0xC2, CHR 0xA4, CHR 0xE2, CHR 0x80, CHR 0xA1, CHR 0xC3, CHR 0xA0, CHR 0xC2,
      CHR 0xA4, CHR 0xC2, CHR 0xB2, CHR 0x20, CHR 0xC3, CHR 0xA0, CHR 0xC2, CHR 0xA4, CHR 0xE2,
      CHR 0x80, CHR 0xA0, CHR 0xC3, CHR 0xA0, CHR 0xC2, CHR 0xA4, CHR 0xC2, CHR 0xB9, CHR 0xC3,
      CHR 0xA0, CHR 0xC2, CHR 0xA5, CHR 0xE2, CHR 0x80, CHR 0xA1, CHR 0x2E]"

definition sample_bn :: string where
  "sample_bn =
     [CHR 0xC3, CHR 0xA0, CHR 0xC2, CHR 0xA6, CHR 0xC2, CHR 0xB9, CHR 0xC3, CHR 0xA0, CHR 0xC2,
      CHR 0xA7, CHR 0xC3, CHR 0xA0, CHR 0xC2, CHR 0xA6, CHR 0xC2, CHR 0xAF, CHR 0xC3, CHR 0xA0,
      CHR 0xC2, CHR 0xA6, CHR 0xC2, CHR 0xBE, CHR 0xC3, CHR 0xA0, CHR 0xC2, CHR 0xA6, CHR 0xC2,
      CHR 0xB2, CHR 0xC3, CHR 0xA0, CHR 0xC2, CHR 0xA7, CHR 0xE2, CHR 0x80, CHR 0xB9, CHR 0x2C,
      CHR 0x20, CHR 0xC3, CHR 0xA0, CHR 0xC2, CHR 0xA6, CHR 0xC3, CHR 0xA0, CHR 0xC2, CHR 0xA6,
      CHR 0xC5, CHR 0xB8, CHR 0xC3, CHR 0xA0, CHR 0xC2, CHR 0xA6, CHR 0xC2, CHR 0xBF, CHR 0x20,
      CHR 0xC3, CHR 0xA0, CHR 0xC2, CHR 0xA6, CHR 0xC3, CHR 0xA0, CHR 0xC2, CHR 0xA6, CHR 0xE2,
      CHR 0x80, CHR 0xA2, CHR 0xC3, CHR 0xA0, CHR 0xC2, CHR 0xA6, CHR 0xC5, CHR 0xB8, CHR 0xC3,
      CHR 0xA0, CHR 0xC2, CHR 0xA6, CHR 0xC2, CHR 0xBF, CHR 0x20, CHR 0xC3, CHR 0xA0, CHR 0xC2,
      CHR 0xA6, CHR 0xE2, CHR 0x80, CHR 0xA0, CHR 0xC3, CHR 0xA0, CHR 0xC2, CHR 0xA6, CHR 0xC2,
      CHR 0xAA, CHR 0xC3, CHR 0xA0, CHR 0xC2, CHR 0xA6, CHR 0xC2, CHR 0xB2, CHR 0xC3, CHR 0xA0,
      CHR 0xC2, CHR 0xA7, CHR 0xE2, CHR 0x80, CHR 0xB9, CHR 0xC3, CHR 0xA0, CHR 0xC2, CHR 0xA6,
      CHR 0xC2, CHR 0xA1, CHR 0x20, CHR 0xC3, CHR 0xA0, CHR 0xC2, CHR 0xA6, CHR 0xE2, CHR 0x80,
      CHR 0xA2, CHR 0xC3, CHR 0xA0, CHR 0xC2, CHR 0xA6, CHR 0xC2, CHR 0xB0, CHR 0xC3, CHR 0xA0,
      CHR 0xC2, CHR 0xA6, CHR 0xC2, CHR 0xBE, CHR 0x20, CHR 0xC3, CHR 0xA0, CHR 0xC2, CHR 0xA6,
      CHR 0xE2, CHR 0x80, CHR 0xA6, CHR 0xC3, CHR 0xA0, CHR 0xC2, CHR 0xA6, CHR 0xC2, CHR 0xA1,
      CHR 0xC3, CHR 0xA0, CHR 0xC2, CHR 0xA6, CHR 0xC2, CHR 0xBF, CHR 0xC3, CHR 0xA0, CHR 0xC2,
      CHR 0xA6, CHR 0xE2, CHR 0x80, CHR 0x9C, CHR 0x20, CHR 0xC3, CHR 0xA0, CHR 0xC2, CHR 0xA6,
      CHR 0xC2, CHR 0xAB, CHR 0xC3, CHR 0xA0, CHR 0xC2, CHR 0xA6, CHR 0xC2, CHR 0xBE, CHR 0xC3,
      CHR 0xA0, CHR 0xC2, CHR 0xA6, CHR 0xE2, CHR 0x80, CHR 0xA1, CHR 0xC3, CHR 0xA0, CHR 0xC2,
      CHR 0xA6, CHR 0xC2, CHR 0xB2, CHR 0xC3, CHR 0xA0, CHR 0xC2, CHR 0xA5, CHR 0xC2, CHR 0xA4]"

definition sample_gu :: string where
  "sample_gu =
     [CHR 0xC3, CHR 0xA0, CHR 0xC2, CHR 0xAA, CHR 0xC2, CHR 0xB9, CHR 0xC3, CHR 0xA0, CHR 0xC2,
      CHR 0xAB, CHR 0xE2, CHR 0x80, CHR 0xA1, CHR 0xC3, CHR 0xA0, CHR 0xC2, CHR 0xAA, CHR 0xC2,
      CHR 0xB2, CHR 0xC3, CHR 0xA0, CHR 0xC2, CHR 0xAB, CHR 0xE2, CHR 0x80, CHR 0xB9, CHR 0x2C,
      CHR 0x20, CHR 0xC3, CHR 0xA0, CHR 0xC2, CHR 0xAA, CHR 0xE2, CHR 0x80, CHR 0xA0, CHR 0x20,
      CHR 0xC3, CHR 0xA0, CHR 0xC2, CHR 0xAA, CHR 0xE2, CHR 0x80, CHR 0xA6, CHR 0xC3, CHR 0xA0,
      CHR 0xC2, CHR 0xAA, CHR 0xC2, CHR 0xAA, CHR 0xC3, CHR 0xA0, CHR 0xC2, CHR 0xAA, CHR 0xC2,
      CHR 0xB2, CHR 0xC3, CHR 0xA0, CHR 0xC2, CHR 0xAB, CHR 0xE2, CHR 0x80, CHR 0xB9, CHR 0xC3,
      CHR 0xA0, CHR 0xC2, CHR 0xAA, CHR 0xC2, CHR 0xA1, CHR 0x20, CHR 0xC3, CHR 0xA0, CHR 0xC2,
      CHR 0xAA, CHR 0xE2, CHR 0x80, CHR 0xA2, CHR 0xC3, CHR 0xA0, CHR 0xC2, CHR 0xAA, CHR 0xC2,
      CHR 0xB0, CHR 0xC3, CHR 0xA0, CHR 0xC2, CHR 0xAB, CHR 0xE2, CHR 0x80, CHR 0xA1, CHR 0xC3,
      CHR 0xA0, CHR 0xC2, CHR 0xAA, CHR 0xC2, CHR 0xB2, CHR 0xC3, CHR 0xA0, CHR 0xC2, CHR 0xAB,
      CHR 0xE2, CHR 0x82, CHR 0xAC, CHR 0x20, CHR 0xC3, CHR 0xA0, CHR 0xC2, CHR 0xAA, CHR 0xE2,
      CHR 0x80, CHR 0x9C, CHR 0xC3, CHR 0xA0, CHR 0xC2, CHR 0xAA, CHR 0xC2, CHR 0xA1, CHR 0xC3,
      CHR 0xA0, CHR 0xC2, CHR 0xAA, CHR 0xC2, CHR 0xBF, CHR 0xC3, CHR 0xA0, CHR 0xC2, CHR 0xAA,
      CHR 0xC2, CHR 0xAF, CHR 0xC3, CHR 0xA0, CHR 0xC2, CHR 0xAB, CHR 0xE2, CHR 0x80, CHR 0xB9,
      CHR 0x20, CHR 0xC3, CHR 0xA0, CHR 0xC2, CHR 0xAA, CHR 0xC2, CHR 0xAB, CHR 0xC3, CHR 0xA0,
      CHR 0xC2, CHR 0xAA, CHR 0xC2, CHR 0xBE, CHR 0xC3, CHR 0xA0, CHR 0xC2, CHR 0xAA, CHR 0xE2,
      CHR 0x80, CHR 0xA1, CHR 0xC3, CHR 0xA0, CHR 0xC2, CHR 0xAA, CHR 0xC2, CHR 0xB2, CHR 0x20,
      CHR 0xC3, CHR 0xA0, CHR 0xC2, CHR 0xAA, CHR 0xE2, CHR 0x80, CHR 0xBA, CHR 0xC3, CHR 0xA0,
      CHR 0xC2, CHR 0xAB, CHR 0xE2, CHR 0x80, CHR 0xA1, CHR 0x2E]"

definition sample_default :: string where
  "sample_default =
     ''Hello, this is an uploaded audio file that needs to be transcribed and translated.''"

definition sampleTexts :: "(string \<times> string) list" where
  "sampleTexts =
     [(''hi'', sample_hi), (''te'', sample_te), (''ta'', sample_ta), (''kn'', sample_kn),
      (''ml'', sample_ml), (''mr'', sample_mr), (''bn'', sample_bn), (''gu'', sample_gu),
      (''default'', sample_default)]"

text \<open>
  \<^verbatim>\<open>simulateAudioTranscription(filename)\<close>. The fixed delay it awaits first has no effect on the value.
  \<^verbatim>\<open>detectedLang\<close> is the first key of the mapping whose code occurs in the lower-cased file name;
  \<^verbatim>\<open>sampleTexts[sourceLang] || sampleTexts['default']\<close> falls back when the code has no sample
  (as \<^verbatim>\<open>en\<close>) or an empty one.
\<close>

definition simulateAudioTranscription :: "string \<Rightarrow> string" where
  "simulateAudioTranscription filename =
     (let detectedLang =
            find (\<lambda>key. case map_of languageMapping key of
                             Some code \<Rightarrow> str_includes (toLowerCase filename) code
                           | None \<Rightarrow> False)
                 (map fst languageMapping);
          sourceLang =
            (case detectedLang of
               Some key \<Rightarrow> (case map_of languageMapping key of Some code \<Rightarrow> code | None \<Rightarrow> ''default'')
             | None \<Rightarrow> ''default'')
      in case map_of sampleTexts sourceLang of
           Some sample \<Rightarrow> if truthy sample then sample else sample_default
         | None \<Rightarrow> sample_default)"

section \<open>The translation client\<close>

text \<open>
  The value \<^verbatim>\<open>response.json()\<close> resolves to. A number is represented by the rational it denotes,
  an object by its own properties.
\<close>

datatype js_value =
    JUndefined
  | JNull
  | JBool bool
  | JNum rat
  | JStr string
  | JArr "js_value list"
  | JObj "(string \<times> js_value) list"

datatype js_error = TypeError | NetworkError | SyntaxError

text \<open>
  The property read \<^verbatim>\<open>v.p\<close>, for the three names the client reads, none of which is inherited
  from a prototype: reading from \<^verbatim>\<open>undefined\<close> or \<^verbatim>\<open>null\<close> throws, a property that is
  absent reads as \<^verbatim>\<open>undefined\<close>.
\<close>

fun js_get :: "js_value \<Rightarrow> string \<Rightarrow> js_error + js_value" where
  "js_get JUndefined p = Inl TypeError"
| "js_get JNull p = Inl TypeError"
| "js_get (JObj props) p = Inr (case map_of props p of Some v \<Rightarrow> v | None \<Rightarrow> JUndefined)"
| "js_get v p = Inr JUndefined"

text \<open>
  What the network does with one request: \<^verbatim>\<open>fetch\<close> rejects, or \<^verbatim>\<open>response.json()\<close> rejects,
  or the body parses to a value.
\<close>

datatype reply = FetchRejects | JsonRejects | Body js_value

text \<open>
  The request \<^verbatim>\<open>fetch\<close> is called with: the fixed endpoint with \<^verbatim>\<open>q\<close> the URL-encoded text and
  \<^verbatim>\<open>langpair\<close> the two codes joined by a bar.
\<close>

record request =
  q :: string
  langpair_source :: string
  langpair_target :: string

section \<open>Session state and page elements\<close>

record js_file =
  file_name :: string
  file_type :: string

record utterance =
  u_text :: string
  u_lang :: string
  u_rate :: rat
  u_pitch :: rat

text \<open>
  The fields of \<^verbatim>\<open>SpeechRecognitionSystem\<close> and the properties of the page elements and host
  objects it reads and writes. \<open>translationLanguage_text\<close> is the text of the selected option of
  the translation select, \<open>status_recording\<close> says whether the status element carries the class
  \<^verbatim>\<open>recording\<close>, and \<open>spoken\<close> lists the utterances handed to \<^verbatim>\<open>speechSynthesis.speak\<close>, oldest
  first.
\<close>

record system =
  isSupported :: bool
  isRecording :: bool
  transcript :: string
  uploadedAudio :: "js_file option"
  lastTranslation :: string
  recognition_lang :: string
  languageSelect_value :: string
  translationLanguage_value :: string
  translationLanguage_text :: string
  status_text :: string
  status_recording :: bool
  startButton_disabled :: bool
  stopButton_disabled :: bool
  fileInfo_text :: string
  processAudioButton_disabled :: bool
  transcriptElement_text :: string
  speakButton_disabled :: bool
  speakButton_text :: string
  spoken :: "utterance list"

text \<open>The entries of \<^verbatim>\<open>this.messages\<close> that the handlers show.\<close>

definition RECORDING :: string where
  "RECORDING = ''Recording in progress... Speak clearly''"

definition STOPPED :: string where
  "STOPPED = ''Recording stopped. Your transcript is ready.''"

definition ERROR_START :: string where
  "ERROR_START = ''Error starting recognition. Please try again.''"

definition BROWSER_ERROR :: string where
  "BROWSER_ERROR =
     ''Speech recognition is not supported in this browser. Please use Chrome or Edge.''"

definition NO_SPEECH :: string where
  "NO_SPEECH = ''No speech detected. Please try again.''"

definition NETWORK_ERROR :: string where
  "NETWORK_ERROR = ''Network error. Please check your internet connection.''"

definition PERMISSION_ERROR :: string where
  "PERMISSION_ERROR = ''Microphone permission denied. Please allow microphone access.''"

definition PROCESSING_AUDIO :: string where
  "PROCESSING_AUDIO = ''Processing audio file...''"

definition AUDIO_PROCESSED :: string where
  "AUDIO_PROCESSED = ''Audio file processed successfully.''"

definition AUDIO_ERROR :: string where
  "AUDIO_ERROR = ''Error processing audio file. Please try another file.''"

text \<open>The icon in front of the label of the speak button, byte for byte as the source has it.\<close>

definition speaker_icon :: string where
  "speaker_icon =
     [CHR 0xC3, CHR 0xB0, CHR 0xC5, CHR 0xB8, CHR 0xE2, CHR 0x80, CHR 0x9D, CHR 0xC5, CHR 0xA0]"

text \<open>
  The constructor, over the page as the document sets it up (the document is not part of the
  source). A fresh recognizer has the empty language tag.
\<close>

definition construct :: "bool \<Rightarrow> system \<Rightarrow> system" where
  "construct supported page =
     (let s = page\<lparr>isSupported := supported, isRecording := False, transcript := [],
                    uploadedAudio := None, lastTranslation := [], recognition_lang := [],
                    speakButton_text := speaker_icon @ '' Speak '' @ translationLanguage_text page,
                    spoken := []\<rparr>
      in if supported then s
         else s\<lparr>status_text := BROWSER_ERROR, startButton_disabled := True,
                stopButton_disabled := True\<rparr>)"

subsection \<open>translateToEnglish\<close>

definition translation_request :: "system \<Rightarrow> string \<Rightarrow> request" where
  "translation_request s text =
     \<lparr>q = text,
      langpair_source =
        (case map_of languageMapping (languageSelect_value s) of
           Some code \<Rightarrow> if truthy code then code else ''auto''
         | None \<Rightarrow> ''auto''),
      langpair_target = translationLanguage_value s\<rparr>"

text \<open>
  The body of the \<^verbatim>\<open>try\<close> block, given what the network does with the request: an exception, or
  the value returned.
\<close>

definition translate_try :: "string \<Rightarrow> reply \<Rightarrow> js_error + js_value" where
  "translate_try text r =
     (case r of
        FetchRejects \<Rightarrow> Inl NetworkError
      | JsonRejects \<Rightarrow> Inl SyntaxError
      | Body data \<Rightarrow>
          (case js_get data ''responseStatus'' of
             Inl e \<Rightarrow> Inl e
           | Inr responseStatus \<Rightarrow>
               if responseStatus = JNum 200
               then (case js_get data ''responseData'' of
                       Inl e \<Rightarrow> Inl e
                     | Inr responseData \<Rightarrow> js_get responseData ''translatedText'')
               else Inr (JStr text)))"

text \<open>
  \<^verbatim>\<open>translateToEnglish(text)\<close>: the requests it hands to \<^verbatim>\<open>fetch\<close>, and the value its promise
  resolves to. The \<^verbatim>\<open>catch\<close> block returns the text.
\<close>

definition translateToEnglish :: "system \<Rightarrow> string \<Rightarrow> reply \<Rightarrow> request list \<times> js_value" where
  "translateToEnglish s text r =
     ([translation_request s text],
      case translate_try text r of Inl e \<Rightarrow> JStr text | Inr v \<Rightarrow> v)"

subsection \<open>Recording\<close>

text \<open>A call into the host either returns or throws.\<close>

datatype host_call = Returns | Throws

text \<open>A \<^verbatim>\<open>try\<close> block runs to its end or throws, in either case leaving a state behind.\<close>

datatype attempt = Completed system | Threw system

definition startRecording_try :: "host_call \<Rightarrow> system \<Rightarrow> attempt" where
  "startRecording_try start s =
     (let s1 = s\<lparr>recognition_lang := languageSelect_value s\<rparr>
      in case start of
           Throws \<Rightarrow> Threw s1
         | Returns \<Rightarrow>
             Completed (s1\<lparr>isRecording := True, startButton_disabled := True,
                           stopButton_disabled := False, status_text := RECORDING,
                           status_recording := True\<rparr>))"

definition startRecording :: "host_call \<Rightarrow> system \<Rightarrow> system" where
  "startRecording start s =
     (if \<not> isSupported s then s\<lparr>status_text := BROWSER_ERROR\<rparr>
      else case startRecording_try start s of
             Completed s' \<Rightarrow> s'
           | Threw s' \<Rightarrow> s'\<lparr>status_text := ERROR_START\<rparr>)"

definition stopRecording_try :: "host_call \<Rightarrow> system \<Rightarrow> attempt" where
  "stopRecording_try stop s =
     (case stop of
        Throws \<Rightarrow> Threw s
      | Returns \<Rightarrow>
          Completed (s\<lparr>isRecording := False, startButton_disabled := False,
                       stopButton_disabled := True, status_text := STOPPED,
                       status_recording := False\<rparr>))"

text \<open>The \<^verbatim>\<open>catch\<close> block of \<^verbatim>\<open>stopRecording\<close> writes to the console only.\<close>

definition stopRecording :: "host_call \<Rightarrow> system \<Rightarrow> system" where
  "stopRecording stop s =
     (if \<not> isSupported s then s
      else case stopRecording_try stop s of
             Completed s' \<Rightarrow> s'
           | Threw s' \<Rightarrow> s')"

subsection \<open>Recognizer callbacks\<close>

definition onnomatch :: "system \<Rightarrow> system" where
  "onnomatch s = s\<lparr>status_text := NO_SPEECH\<rparr>"

definition errorMessage :: "string \<Rightarrow> string" where
  "errorMessage error =
     (if error = ''network'' then NETWORK_ERROR
      else if error = ''not-allowed'' then PERMISSION_ERROR
      else ERROR_START)"

definition onerror :: "string \<Rightarrow> host_call \<Rightarrow> system \<Rightarrow> system" where
  "onerror error stop s = stopRecording stop (s\<lparr>status_text := errorMessage error\<rparr>)"

definition updateTranscript :: "string \<Rightarrow> string \<Rightarrow> system \<Rightarrow> system" where
  "updateTranscript finalTranscript interimTranscript s =
     (let s1 =
            (if truthy finalTranscript
             then s\<lparr>lastTranslation := finalTranscript,
                    transcript :=
                      transcript s @ ''Original: '' @ interimTranscript @ ''\<newline>'' @
                      translationLanguage_text s @ '' Translation: '' @ finalTranscript @
                      ''\<newline>\<newline>'',
                    speakButton_disabled := False\<rparr>
             else s)
      in s1\<lparr>transcriptElement_text :=
               transcript s1 @
               (if truthy interimTranscript then ''Speaking: '' @ interimTranscript else [])\<rparr>)"

text \<open>
  One entry of \<^verbatim>\<open>event.results\<close>: the transcript of its first alternative and its
  \<^verbatim>\<open>isFinal\<close> flag.
\<close>

record recognition_result =
  first_transcript :: string
  isFinal :: bool

record result_event =
  resultIndex :: nat
  results :: "recognition_result list"

text \<open>
  The \<^verbatim>\<open>onresult\<close> handler is asynchronous: it runs until it awaits the translation of a final
  fragment, and goes on when that promise resolves. A suspended handler is a task, holding the
  text under translation, the results the loop has not reached (the loop visits
  \<^verbatim>\<open>results[i]\<close> for \<^verbatim>\<open>i\<close> from \<^verbatim>\<open>resultIndex\<close> up to the length, that is, the results after
  the first \<^verbatim>\<open>resultIndex\<close> ones) and the two local strings. The tasks of
  \<^verbatim>\<open>processAudioFile\<close> are the stages of its callbacks: the file reader at work, the audio
  decoder at work, the timer of \<^verbatim>\<open>simulateAudioTranscription\<close> running for a file name, the
  transcript under translation.

  The promise of \<^verbatim>\<open>translateToEnglish\<close> resolves to the text or to the \<^verbatim>\<open>translatedText\<close> of
  the reply, which the service declares to be a string; the handlers are resumed with that
  string. The results of an event are taken as they are when the event is delivered.
\<close>

datatype task =
    TranslatingResult string "recognition_result list" string string
  | ReadingFile
  | DecodingAudio
  | Transcribing string
  | TranslatingFile string

datatype progress = Suspended task | LoopDone string string

fun onresult_loop :: "recognition_result list \<Rightarrow> string \<Rightarrow> string \<Rightarrow> progress" where
  "onresult_loop [] finalTranscript interimTranscript = LoopDone finalTranscript interimTranscript"
| "onresult_loop (r # rs) finalTranscript interimTranscript =
     (if isFinal r
      then Suspended (TranslatingResult (first_transcript r) rs finalTranscript interimTranscript)
      else onresult_loop rs finalTranscript (interimTranscript @ first_transcript r))"

text \<open>The handler from its start up to the first await or to its end.\<close>

definition onresult_start :: "result_event \<Rightarrow> progress" where
  "onresult_start event = onresult_loop (drop (resultIndex event) (results event)) [] []"

text \<open>The suspended handler goes on with the translated text.\<close>

fun onresult_resume :: "task \<Rightarrow> string \<Rightarrow> progress" where
  "onresult_resume (TranslatingResult text rs finalTranscript interimTranscript) translatedText =
     onresult_loop rs (finalTranscript @ translatedText) interimTranscript"
| "onresult_resume t translatedText = Suspended t"

text \<open>
  The handler run to its end, given the translated texts in the order it awaits them; while it
  still awaits one there is no result.
\<close>

fun settle_all :: "progress \<Rightarrow> string list \<Rightarrow> progress" where
  "settle_all (Suspended t) (translatedText # rest) =
     settle_all (onresult_resume t translatedText) rest"
| "settle_all p rest = p"

text \<open>The texts the handler submits for translation along the way.\<close>

fun submitted :: "progress \<Rightarrow> string list \<Rightarrow> string list" where
  "submitted (Suspended (TranslatingResult text rs f i)) (translatedText # rest) =
     text # submitted (onresult_loop rs (f @ translatedText) i) rest"
| "submitted (Suspended (TranslatingResult text rs f i)) [] = [text]"
| "submitted p rest = []"

definition onresult :: "result_event \<Rightarrow> string list \<Rightarrow> system \<Rightarrow> system option" where
  "onresult event translations s =
     (case settle_all (onresult_start event) translations of
        LoopDone finalTranscript interimTranscript \<Rightarrow>
          Some (updateTranscript finalTranscript interimTranscript s)
      | Suspended t \<Rightarrow> None)"

subsection \<open>Speech synthesis\<close>

text \<open>\<^verbatim>\<open>speakTranslation\<close>, given what \<^verbatim>\<open>speechSynthesis.speaking\<close> reads as.\<close>

definition speakTranslation :: "bool \<Rightarrow> system \<Rightarrow> system" where
  "speakTranslation speaking s =
     (if truthy (lastTranslation s) \<and> \<not> speaking
      then s\<lparr>spoken := spoken s @
                [\<lparr>u_text = lastTranslation s,
                  u_lang = (if translationLanguage_value s = ''en'' then ''en-US''
                            else translationLanguage_value s),
                  u_rate = 9 / 10,
                  u_pitch = 1\<rparr>]\<rparr>
      else s)"

subsection \<open>File upload\<close>

text \<open>\<^verbatim>\<open>handleFileSelect\<close>, given \<^verbatim>\<open>event.target.files\<close>.\<close>

definition handleFileSelect :: "js_file list \<Rightarrow> system \<Rightarrow> system" where
  "handleFileSelect files s =
     (case files of
        f # rest \<Rightarrow>
          if startsWith (file_type f) ''audio/''
          then s\<lparr>uploadedAudio := Some f, fileInfo_text := ''Selected: '' @ file_name f,
                 processAudioButton_disabled := False\<rparr>
          else s\<lparr>fileInfo_text := ''Please select an audio file'',
                 processAudioButton_disabled := True, uploadedAudio := None\<rparr>
      | [] \<Rightarrow>
          s\<lparr>fileInfo_text := ''No file selected'', processAudioButton_disabled := True,
            uploadedAudio := None\<rparr>)"

subsection \<open>The page as a whole\<close>

text \<open>The session together with the handlers that are suspended.\<close>

record config =
  sys :: system
  tasks :: "task list"

definition remove_task :: "nat \<Rightarrow> task list \<Rightarrow> task list" where
  "remove_task k ts = take k ts @ drop (Suc k) ts"

text \<open>
  One turn of the event loop: a user action, a recognizer callback, or the completion of what a
  suspended handler waits for. \<open>ClickProcess\<close> carries whether constructing the audio context
  returns; the \<open>Settles\<close> turns name the task by its position and say how its wait ended.
\<close>

datatype turn =
    ClickStart host_call
  | ClickStop host_call
  | ChangeLanguage string
  | ChangeTranslationLanguage string string
  | SelectFile "js_file list"
  | ClickProcess host_call
  | ClickSpeak bool
  | NoMatch
  | RecognitionError string host_call
  | RecognitionResult result_event
  | TranslationSettles nat string
  | ReadSettles nat bool
  | DecodeSettles nat bool
  | TimerFires nat

text \<open>The listeners of the two selects; the page has set the new value before they run.\<close>

definition languageSelect_change :: "string \<Rightarrow> system \<Rightarrow> system" where
  "languageSelect_change v s =
     (let s1 = s\<lparr>languageSelect_value := v\<rparr>
      in if isSupported s1 then s1\<lparr>recognition_lang := languageSelect_value s1\<rparr> else s1)"

definition translationLanguage_change :: "string \<Rightarrow> string \<Rightarrow> system \<Rightarrow> system" where
  "translationLanguage_change v label s =
     (let s1 = s\<lparr>translationLanguage_value := v, translationLanguage_text := label\<rparr>
      in s1\<lparr>speakButton_text := speaker_icon @ '' Speak '' @ translationLanguage_text s1\<rparr>)"

text \<open>
  \<^verbatim>\<open>processAudioFile\<close> up to the start of the read. An exception of the audio context
  constructor leaves the handler after the status line is written.
\<close>

definition processAudioFile :: "host_call \<Rightarrow> config \<Rightarrow> config" where
  "processAudioFile audioContext c =
     (case uploadedAudio (sys c) of
        None \<Rightarrow> c
      | Some f \<Rightarrow>
          (let c1 = c\<lparr>sys := (sys c)\<lparr>status_text := PROCESSING_AUDIO\<rparr>\<rparr>
           in case audioContext of
                Throws \<Rightarrow> c1
              | Returns \<Rightarrow> c1\<lparr>tasks := tasks c1 @ [ReadingFile]\<rparr>))"

text \<open>The end of a handler's run: the session it leaves and what becomes of task \<open>k\<close>.\<close>

definition finish_task :: "nat \<Rightarrow> system \<Rightarrow> config \<Rightarrow> config" where
  "finish_task k s c = c\<lparr>sys := s, tasks := remove_task k (tasks c)\<rparr>"

definition suspend_task :: "nat \<Rightarrow> task \<Rightarrow> config \<Rightarrow> config" where
  "suspend_task k t c = c\<lparr>tasks := (tasks c)[k := t]\<rparr>"

definition audio_failed :: "nat \<Rightarrow> config \<Rightarrow> config" where
  "audio_failed k c = finish_task k ((sys c)\<lparr>status_text := AUDIO_ERROR\<rparr>) c"

text \<open>A task going on after its wait ended; a wait of another kind does not end this way.\<close>

fun translation_settles :: "nat \<Rightarrow> string \<Rightarrow> task \<Rightarrow> config \<Rightarrow> config" where
  "translation_settles k translatedText (TranslatingFile fileTranscript) c =
     finish_task k ((updateTranscript translatedText fileTranscript (sys c))
                       \<lparr>status_text := AUDIO_PROCESSED\<rparr>) c"
| "translation_settles k translatedText (TranslatingResult text rs f i) c =
     (case onresult_resume (TranslatingResult text rs f i) translatedText of
        LoopDone finalTranscript interimTranscript \<Rightarrow>
          finish_task k (updateTranscript finalTranscript interimTranscript (sys c)) c
      | Suspended t \<Rightarrow> suspend_task k t c)"
| "translation_settles k translatedText t c = c"

fun read_settles :: "nat \<Rightarrow> bool \<Rightarrow> task \<Rightarrow> config \<Rightarrow> config" where
  "read_settles k loaded ReadingFile c =
     (if loaded then suspend_task k DecodingAudio c else audio_failed k c)"
| "read_settles k loaded t c = c"

fun decode_settles :: "nat \<Rightarrow> bool \<Rightarrow> task \<Rightarrow> config \<Rightarrow> config" where
  "decode_settles k decoded DecodingAudio c =
     (if decoded
      then (case uploadedAudio (sys c) of
              Some f \<Rightarrow> suspend_task k (Transcribing (file_name f)) c
            | None \<Rightarrow> audio_failed k c)
      else audio_failed k c)"
| "decode_settles k decoded t c = c"

fun timer_fires :: "nat \<Rightarrow> task \<Rightarrow> config \<Rightarrow> config" where
  "timer_fires k (Transcribing filename) c =
     suspend_task k (TranslatingFile (simulateAudioTranscription filename)) c"
| "timer_fires k t c = c"

definition on_task :: "nat \<Rightarrow> (task \<Rightarrow> config \<Rightarrow> config) \<Rightarrow> config \<Rightarrow> config" where
  "on_task k go c = (if k < length (tasks c) then go (tasks c ! k) c else c)"

fun turn_step :: "turn \<Rightarrow> config \<Rightarrow> config" where
  "turn_step (ClickStart start) c = c\<lparr>sys := startRecording start (sys c)\<rparr>"
| "turn_step (ClickStop stop) c = c\<lparr>sys := stopRecording stop (sys c)\<rparr>"
| "turn_step (ChangeLanguage v) c = c\<lparr>sys := languageSelect_change v (sys c)\<rparr>"
| "turn_step (ChangeTranslationLanguage v label) c =
     c\<lparr>sys := translationLanguage_change v label (sys c)\<rparr>"
| "turn_step (SelectFile files) c = c\<lparr>sys := handleFileSelect files (sys c)\<rparr>"
| "turn_step (ClickProcess audioContext) c = processAudioFile audioContext c"
| "turn_step (ClickSpeak speaking) c = c\<lparr>sys := speakTranslation speaking (sys c)\<rparr>"
| "turn_step NoMatch c = c\<lparr>sys := onnomatch (sys c)\<rparr>"
| "turn_step (RecognitionError error stop) c = c\<lparr>sys := onerror error stop (sys c)\<rparr>"
| "turn_step (RecognitionResult event) c =
     (case onresult_start event of
        LoopDone finalTranscript interimTranscript \<Rightarrow>
          c\<lparr>sys := updateTranscript finalTranscript interimTranscript (sys c)\<rparr>
      | Suspended t \<Rightarrow> c\<lparr>tasks := tasks c @ [t]\<rparr>)"
| "turn_step (TranslationSettles k translatedText) c =
     on_task k (translation_settles k translatedText) c"
| "turn_step (ReadSettles k loaded) c = on_task k (read_settles k loaded) c"
| "turn_step (DecodeSettles k decoded) c = on_task k (decode_settles k decoded) c"
| "turn_step (TimerFires k) c = on_task k (timer_fires k) c"

fun run_turns :: "turn list \<Rightarrow> config \<Rightarrow> config" where
  "run_turns [] c = c"
| "run_turns (t # ts) c = run_turns ts (turn_step t c)"

section \<open>Notions used in the statements\<close>

text \<open>The two-letter codes of the mapping, in its order, and the sentence a code selects.\<close>

definition language_codes :: "string list" where
  "language_codes = map snd languageMapping"

definition sample_of :: "string \<Rightarrow> string" where
  "sample_of code = (case map_of sampleTexts code of Some t \<Rightarrow> t | None \<Rightarrow> sample_default)"

text \<open>
  Reading the reply: whether \<^verbatim>\<open>data.responseStatus === 200\<close> holds, and what
  \<^verbatim>\<open>data.responseData.translatedText\<close> evaluates to.
\<close>

definition status_200 :: "js_value \<Rightarrow> bool" where
  "status_200 data = (js_get data ''responseStatus'' = Inr (JNum 200))"

definition translatedText_of :: "js_value \<Rightarrow> js_error + js_value" where
  "translatedText_of data =
     (case js_get data ''responseData'' of
        Inl e \<Rightarrow> Inl e
      | Inr responseData \<Rightarrow> js_get responseData ''translatedText'')"

text \<open>A body of the shape the translation service sends.\<close>

definition service_body :: "rat \<Rightarrow> string \<Rightarrow> js_value" where
  "service_body status translated =
     JObj [(''responseData'', JObj [(''translatedText'', JStr translated)]),
           (''responseStatus'', JNum status)]"

text \<open>
  The results the loop of \<^verbatim>\<open>onresult\<close> visits, the transcripts of the final ones among some
  results, the concatenated transcripts of the others, and the block \<^verbatim>\<open>updateTranscript\<close>
  appends.
\<close>

definition visited :: "result_event \<Rightarrow> recognition_result list" where
  "visited event = drop (resultIndex event) (results event)"

definition final_texts :: "recognition_result list \<Rightarrow> string list" where
  "final_texts rs = map first_transcript (filter isFinal rs)"

definition interim_text :: "recognition_result list \<Rightarrow> string" where
  "interim_text rs = concat (map first_transcript (filter (\<lambda>r. \<not> isFinal r) rs))"

definition transcript_block :: "string \<Rightarrow> string \<Rightarrow> string \<Rightarrow> string" where
  "transcript_block original language translated =
     ''Original: '' @ original @ ''\<newline>'' @ language @ '' Translation: '' @ translated @
     ''\<newline>\<newline>''"

text \<open>
  Where a handler stands after a run, among the tasks before and after its own: suspended
  again in its place, or at its end, with the transcript updated and its task gone. And the
  turns in which the translations a task awaits settle one after the other.
\<close>

definition resumed :: "progress \<Rightarrow> system \<Rightarrow> task list \<Rightarrow> task list \<Rightarrow> config" where
  "resumed p s before after =
     (case p of
        Suspended t \<Rightarrow> \<lparr>sys = s, tasks = before @ t # after\<rparr>
      | LoopDone finalTranscript interimTranscript \<Rightarrow>
          \<lparr>sys = updateTranscript finalTranscript interimTranscript s, tasks = before @ after\<rparr>)"

definition settles :: "nat \<Rightarrow> string list \<Rightarrow> turn list" where
  "settles k translations = map (TranslationSettles k) translations"

subsection \<open>A page to run the handlers on\<close>

text \<open>
  A document with Hindi selected as the spoken language and English as the translation
  language, the system constructed on it in a browser that has a recognizer, two files, and
  some result events.
\<close>

definition demo_page :: system where
  "demo_page =
     \<lparr>isSupported = False, isRecording = False, transcript = [], uploadedAudio = None,
      lastTranslation = [], recognition_lang = [], languageSelect_value = ''hi-IN'',
      translationLanguage_value = ''en'', translationLanguage_text = ''English'',
      status_text = ''Click \"Start Recording\" to begin'', status_recording = False,
      startButton_disabled = False, stopButton_disabled = True, fileInfo_text = [],
      processAudioButton_disabled = True, transcriptElement_text = [],
      speakButton_disabled = True, speakButton_text = [], spoken = []\<rparr>"

definition fresh :: system where
  "fresh = construct True demo_page"

definition idle :: config where
  "idle = \<lparr>sys = fresh, tasks = []\<rparr>"

definition song :: js_file where
  "song = \<lparr>file_name = ''song.mp3'', file_type = ''audio/mpeg''\<rparr>"

definition photo :: js_file where
  "photo = \<lparr>file_name = ''photo.png'', file_type = ''image/png''\<rparr>"

text \<open>An event carrying one final result, and one that has a final and an interim result to visit.\<close>

definition final_result :: "string \<Rightarrow> result_event" where
  "final_result said =
     \<lparr>resultIndex = 0, results = [\<lparr>first_transcript = said, isFinal = True\<rparr>]\<rparr>"

definition phrase :: result_event where
  "phrase =
     \<lparr>resultIndex = 1,
      results = [\<lparr>first_transcript = ''old'', isFinal = True\<rparr>,
                 \<lparr>first_transcript = ''namaste'', isFinal = True\<rparr>,
                 \<lparr>first_transcript = ''duniya'', isFinal = False\<rparr>]\<rparr>"

section \<open>Properties of the strings\<close>

lemma str_includes_sublist: "str_includes haystack needle \<longleftrightarrow> sublist needle haystack"
  by (induction haystack) (auto simp: sublist_Cons_right)

section \<open>The transcription stub selects by file name\<close>

lemma sample_truthy:
  "truthy sample_hi" "truthy sample_te" "truthy sample_ta" "truthy sample_kn"
  "truthy sample_ml" "truthy sample_mr" "truthy sample_bn" "truthy sample_gu"
  by (simp_all add: truthy_def sample_hi_def sample_te_def sample_ta_def sample_kn_def
      sample_ml_def sample_mr_def sample_bn_def sample_gu_def)

lemma sample_of_codes:
  "sample_of ''en'' = sample_default" "sample_of ''hi'' = sample_hi"
  "sample_of ''te'' = sample_te" "sample_of ''ta'' = sample_ta" "sample_of ''kn'' = sample_kn"
  "sample_of ''ml'' = sample_ml" "sample_of ''mr'' = sample_mr" "sample_of ''bn'' = sample_bn"
  "sample_of ''gu'' = sample_gu"
  by (simp_all add: sample_of_def sampleTexts_def)

lemma sample_hi_not_default: "sample_hi \<noteq> sample_default"
  by (simp add: sample_hi_def sample_default_def)

lemma simulate_find:
  "simulateAudioTranscription filename =
     (case find (\<lambda>code. sublist code (toLowerCase filename)) language_codes of
        None \<Rightarrow> sample_default
      | Some code \<Rightarrow> sample_of code)"
  unfolding simulateAudioTranscription_def language_codes_def languageMapping_def sample_of_def
  by (simp add: str_includes_sublist sampleTexts_def sample_truthy Let_def)

lemmas lower_simps = lower_char_def kelvin_sign_def dotted_capital_i_def combining_dot_above_def

text \<open>
  File names with a capital letter, with the Kelvin sign before \<^verbatim>\<open>n\<close>, and with the capital I
  with dot above after \<^verbatim>\<open>H\<close>: the Hindi, the Kannada and again the Hindi sentence.
\<close>

lemma simulate_capitals:
  "simulateAudioTranscription ''Audio_HI_Sample.MP3'' = sample_hi"
  "simulateAudioTranscription (kelvin_sign @ ''n.mp3'') = sample_kn"
  "simulateAudioTranscription (''H'' @ dotted_capital_i @ ''.mp3'') = sample_hi"
  by (simp_all add: simulateAudioTranscription_def languageMapping_def sampleTexts_def
      lower_simps sample_truthy)

text \<open>
  C5. The stub returns the Hindi sentence for \<^verbatim>\<open>audio_hi_sample.mp3\<close> and the English fallback for
  \<^verbatim>\<open>clip.mp3\<close>. For every file name it returns the sentence of the first code of the mapping
  that occurs in the lower-cased name (the fallback for \<^verbatim>\<open>en\<close>, which has no sentence of its
  own); it returns the English fallback when no code occurs; and two names with the same lower
  case get the same sentence.
\<close>

theorem simulateAudioTranscription_selects:
  "simulateAudioTranscription ''audio_hi_sample.mp3'' = sample_hi
   \<and> simulateAudioTranscription ''clip.mp3'' = sample_default
   \<and> simulateAudioTranscription filename =
       (case find (\<lambda>code. sublist code (toLowerCase filename)) language_codes of
          None \<Rightarrow> sample_default
        | Some code \<Rightarrow> sample_of code)
   \<and> ((\<forall>code \<in> set language_codes. \<not> sublist code (toLowerCase filename))
        \<longrightarrow> simulateAudioTranscription filename = sample_default)
   \<and> (toLowerCase filename = toLowerCase other
        \<longrightarrow> simulateAudioTranscription filename = simulateAudioTranscription other)"
proof (intro conjI impI)
  show "simulateAudioTranscription ''audio_hi_sample.mp3'' = sample_hi"
    by (simp add: simulateAudioTranscription_def languageMapping_def sampleTexts_def
        lower_simps sample_truthy)
  show "simulateAudioTranscription ''clip.mp3'' = sample_default"
    by (simp add: simulateAudioTranscription_def languageMapping_def sampleTexts_def
        lower_simps sample_truthy)
  show "simulateAudioTranscription filename =
       (case find (\<lambda>code. sublist code (toLowerCase filename)) language_codes of
          None \<Rightarrow> sample_default
        | Some code \<Rightarrow> sample_of code)"
    by (rule simulate_find)
next
  assume "\<forall>code \<in> set language_codes. \<not> sublist code (toLowerCase filename)"
  then have "find (\<lambda>code. sublist code (toLowerCase filename)) language_codes = None"
    by (simp add: find_None_iff)
  then show "simulateAudioTranscription filename = sample_default"
    by (simp add: simulate_find)
next
  assume "toLowerCase filename = toLowerCase other"
  then show "simulateAudioTranscription filename = simulateAudioTranscription other"
    unfolding simulateAudioTranscription_def by (simp only:)
qed

theorem simulateAudioTranscription_selects_witness:
  "find (\<lambda>code. sublist code (toLowerCase ''Clip.MP3'')) language_codes = None
   \<and> simulateAudioTranscription ''Clip.MP3'' = sample_default
   \<and> toLowerCase ''Audio_HI_Sample.MP3'' = toLowerCase ''audio_hi_sample.mp3''
   \<and> simulateAudioTranscription ''Audio_HI_Sample.MP3'' = sample_hi
   \<and> find (\<lambda>code. sublist code (toLowerCase (kelvin_sign @ ''N.MP3''))) language_codes
       = Some ''kn''
   \<and> simulateAudioTranscription (kelvin_sign @ ''N.MP3'') = sample_kn
   \<and> sample_hi \<noteq> sample_default"
proof -
  have low: "toLowerCase ''Clip.MP3'' = ''clip.mp3''"
    "toLowerCase ''Audio_HI_Sample.MP3'' = ''audio_hi_sample.mp3''"
    "toLowerCase ''audio_hi_sample.mp3'' = ''audio_hi_sample.mp3''"
    "toLowerCase (kelvin_sign @ ''N.MP3'') = ''kn.mp3''"
    by (simp_all add: lower_simps)
  have none: "\<forall>code \<in> set language_codes. \<not> sublist code (toLowerCase ''Clip.MP3'')"
    unfolding low
    by (simp add: language_codes_def languageMapping_def str_includes_sublist [symmetric])
  have kn: "find (\<lambda>code. sublist code ''kn.mp3'') language_codes = Some ''kn''"
    by (simp add: language_codes_def languageMapping_def str_includes_sublist [symmetric])
  have same: "toLowerCase ''Audio_HI_Sample.MP3'' = toLowerCase ''audio_hi_sample.mp3''"
    by (simp only: low)
  from simulateAudioTranscription_selects [of "''Clip.MP3''" "''clip.mp3''"] none
  have clip: "simulateAudioTranscription ''Clip.MP3'' = sample_default"
    by blast
  from simulateAudioTranscription_selects [of "''Audio_HI_Sample.MP3''" "''audio_hi_sample.mp3''"]
  have "simulateAudioTranscription ''audio_hi_sample.mp3'' = sample_hi"
    and "toLowerCase ''Audio_HI_Sample.MP3'' = toLowerCase ''audio_hi_sample.mp3''
      \<longrightarrow> simulateAudioTranscription ''Audio_HI_Sample.MP3''
          = simulateAudioTranscription ''audio_hi_sample.mp3''"
    by blast+
  with same have hi: "simulateAudioTranscription ''Audio_HI_Sample.MP3'' = sample_hi"
    by (simp only:)
  from simulateAudioTranscription_selects [of "kelvin_sign @ ''N.MP3''" "''kn.mp3''"]
  have "simulateAudioTranscription (kelvin_sign @ ''N.MP3'') =
       (case find (\<lambda>code. sublist code (toLowerCase (kelvin_sign @ ''N.MP3''))) language_codes of
          None \<Rightarrow> sample_default
        | Some code \<Rightarrow> sample_of code)"
    by blast
  then have "simulateAudioTranscription (kelvin_sign @ ''N.MP3'') = sample_of ''kn''"
    by (simp only: low kn option.case)
  then have kelvin: "simulateAudioTranscription (kelvin_sign @ ''N.MP3'') = sample_kn"
    by (simp only: sample_of_codes)
  have nofind:
    "find (\<lambda>code. sublist code (toLowerCase ''Clip.MP3'')) language_codes = None"
    by (simp only: find_None_iff) (use none in blast)
  have kelvin_find:
    "find (\<lambda>code. sublist code (toLowerCase (kelvin_sign @ ''N.MP3''))) language_codes
       = Some ''kn''"
    by (simp only: low kn)
  from nofind clip same hi kelvin_find kelvin sample_hi_not_default show ?thesis
    by (intro conjI)
qed

section \<open>The translation client falls back to the text\<close>

lemma translate_closed:
  "snd (translateToEnglish s text r) =
     (case r of
        FetchRejects \<Rightarrow> JStr text
      | JsonRejects \<Rightarrow> JStr text
      | Body data \<Rightarrow>
          if status_200 data
          then (case translatedText_of data of Inl e \<Rightarrow> JStr text | Inr v \<Rightarrow> v)
          else JStr text)"
  by (auto simp: translateToEnglish_def translate_try_def status_200_def translatedText_of_def
      split: reply.splits sum.splits)

lemma service_body_facts:
  "status_200 (service_body status t) \<longleftrightarrow> status = 200"
  "translatedText_of (service_body status t) = Inr (JStr t)"
  by (simp_all add: status_200_def translatedText_of_def service_body_def)

text \<open>
  C1. For every input text, \<^verbatim>\<open>translateToEnglish\<close> returns \<^verbatim>\<open>responseData.translatedText\<close> when
  the reply carries \<^verbatim>\<open>responseStatus\<close> 200; for any other \<^verbatim>\<open>responseStatus\<close>, and when
  \<^verbatim>\<open>fetch\<close> or \<^verbatim>\<open>json\<close> throws, it returns the input text unchanged. A body from which
  \<^verbatim>\<open>responseData.translatedText\<close> cannot be read (\<^verbatim>\<open>responseData\<close> missing or \<^verbatim>\<open>null\<close>) counts
  as a failure as well: the read throws inside the \<^verbatim>\<open>try\<close> block and the text comes back. The
  function calls \<^verbatim>\<open>fetch\<close> once, whatever the reply: there is no retry.
\<close>

theorem translateToEnglish_by_status:
  "(status_200 ok \<and> translatedText_of ok = Inr translated
      \<longrightarrow> snd (translateToEnglish s text (Body ok)) = translated)
   \<and> (\<not> status_200 other \<longrightarrow> snd (translateToEnglish s text (Body other)) = JStr text)
   \<and> snd (translateToEnglish s text FetchRejects) = JStr text
   \<and> snd (translateToEnglish s text JsonRejects) = JStr text
   \<and> (translatedText_of unreadable = Inl e
        \<longrightarrow> snd (translateToEnglish s text (Body unreadable)) = JStr text)
   \<and> fst (translateToEnglish s text r) = [translation_request s text]"
  by (simp add: translate_closed) (simp add: translateToEnglish_def)

theorem translateToEnglish_by_status_witness:
  "snd (translateToEnglish demo_page ''namaste'' (Body (service_body 200 ''hello'')))
     = JStr ''hello''
   \<and> snd (translateToEnglish demo_page ''namaste'' (Body (service_body 403 ''LIMIT'')))
     = JStr ''namaste''
   \<and> snd (translateToEnglish demo_page ''namaste''
            (Body (JObj [(''responseStatus'', JNum 200)])))
     = JStr ''namaste''
   \<and> length (fst (translateToEnglish demo_page ''namaste'' FetchRejects)) = 1"
proof -
  have "translatedText_of (JObj [(''responseStatus'', JNum 200)]) = Inl TypeError"
    by (simp add: translatedText_of_def)
  with translateToEnglish_by_status
    [of "service_body 200 ''hello''" "JStr ''hello''" demo_page "''namaste''"
        "service_body 403 ''LIMIT''" "JObj [(''responseStatus'', JNum 200)]" TypeError
        FetchRejects]
  show ?thesis
    by (simp add: service_body_facts)
qed

section \<open>Failures of the recognizer\<close>

lemma fresh_supported: "isSupported fresh"
  by (simp add: fresh_def construct_def Let_def)

text \<open>
  The recognizer reports a network error while recording and \<^verbatim>\<open>stop()\<close> returns: the handler
  writes the network message, and \<^verbatim>\<open>stopRecording\<close> then writes the stopped message over it.
\<close>

theorem onerror_status_overwritten:
  "status_text (onerror ''network'' Returns (startRecording Returns fresh)) = STOPPED
   \<and> errorMessage ''network'' = NETWORK_ERROR
   \<and> STOPPED \<noteq> NETWORK_ERROR"
  by (simp add: onerror_def stopRecording_def stopRecording_try_def startRecording_def
      startRecording_try_def fresh_def construct_def demo_page_def errorMessage_def
      STOPPED_def NETWORK_ERROR_def Let_def)

text \<open>In general the error message stays on the status line only when \<^verbatim>\<open>stop()\<close> throws.\<close>

lemma onerror_status:
  "isSupported s \<Longrightarrow> status_text (onerror error Returns s) = STOPPED"
  "isSupported s \<Longrightarrow> status_text (onerror error Throws s) = errorMessage error"
  by (simp_all add: onerror_def stopRecording_def stopRecording_try_def)

text \<open>
  A failure of \<^verbatim>\<open>stop()\<close> while recording: the status line still reads that recording is in
  progress, which is no error message.
\<close>

theorem stopRecording_failure_silent:
  "status_text (stopRecording Throws (startRecording Returns fresh)) = RECORDING
   \<and> stopRecording_try Throws (startRecording Returns fresh)
       = Threw (startRecording Returns fresh)
   \<and> RECORDING \<noteq> ERROR_START"
  by (simp add: stopRecording_def stopRecording_try_def startRecording_def
      startRecording_try_def fresh_def construct_def demo_page_def
      RECORDING_def ERROR_START_def Let_def)

text \<open>
  C4, as amended. An exception of the recognizer's \<^verbatim>\<open>start()\<close> or \<^verbatim>\<open>stop()\<close> is caught. After a
  failure of \<^verbatim>\<open>start()\<close> the status line shows the generic start-error message; a failure of
  \<^verbatim>\<open>stop()\<close> is written to the console only and leaves the status line and all the rest of the
  state as they were.
\<close>

theorem recognizer_failures_caught:
  "(isSupported s \<longrightarrow> status_text (startRecording Throws s) = ERROR_START)
   \<and> stopRecording Throws s = s"
  by (simp add: startRecording_def startRecording_try_def stopRecording_def
      stopRecording_try_def Let_def)

theorem recognizer_failures_caught_witness:
  "status_text (startRecording Throws fresh) = ERROR_START
   \<and> stopRecording Throws (startRecording Returns fresh) = startRecording Returns fresh"
  using fresh_supported recognizer_failures_caught [of fresh]
    recognizer_failures_caught [of "startRecording Returns fresh"]
  by simp

text \<open>
  The first start request on the fresh page, with \<^verbatim>\<open>start()\<close> throwing: the language of the
  recognizer has been set by then, so more than the status text has changed.
\<close>

theorem startRecording_failure_sets_lang:
  "recognition_lang fresh = []
   \<and> recognition_lang (startRecording Throws fresh) = ''hi-IN''
   \<and> startRecording Throws fresh \<noteq> fresh\<lparr>status_text := ERROR_START\<rparr>"
proof -
  have lang: "recognition_lang fresh = []"
    "recognition_lang (startRecording Throws fresh) = ''hi-IN''"
    by (simp_all add: startRecording_def startRecording_try_def fresh_def construct_def
        demo_page_def Let_def)
  have "recognition_lang (fresh\<lparr>status_text := ERROR_START\<rparr>) = []"
    by (simp add: lang)
  with lang show ?thesis by auto
qed

text \<open>
  C10, as amended. If \<^verbatim>\<open>start()\<close> throws during a start request, the recording flag, the
  disabled states of the start and stop buttons and the recording style of the status line keep
  their values (so a flag that was false remains false), and so does every other field but
  two: the status text is replaced by the generic start-error message, and the language of the
  recognizer is the selected one, assigned before \<^verbatim>\<open>start()\<close> was called.
\<close>

theorem startRecording_failure_keeps_session:
  "isSupported s \<Longrightarrow>
     startRecording Throws s =
       s\<lparr>recognition_lang := languageSelect_value s, status_text := ERROR_START\<rparr>
     \<and> isRecording (startRecording Throws s) = isRecording s
     \<and> startButton_disabled (startRecording Throws s) = startButton_disabled s
     \<and> stopButton_disabled (startRecording Throws s) = stopButton_disabled s
     \<and> status_recording (startRecording Throws s) = status_recording s
     \<and> status_text (startRecording Throws s) = ERROR_START"
  by (simp add: startRecording_def startRecording_try_def Let_def)

theorem startRecording_failure_keeps_session_witness:
  "startRecording Throws fresh
     = fresh\<lparr>recognition_lang := ''hi-IN'', status_text := ERROR_START\<rparr>
   \<and> isRecording (startRecording Throws fresh) = False"
  using startRecording_failure_keeps_session [OF fresh_supported]
  by (simp add: fresh_def construct_def demo_page_def Let_def)

section \<open>Selecting a file\<close>

text \<open>
  C6. When the selected file has a type that does not start with \<^verbatim>\<open>audio/\<close>, the process button
  is disabled, the file line shows the fixed message, and the stored upload is unset, whatever
  was stored before.
\<close>

theorem handleFileSelect_rejects_non_audio:
  "\<not> startsWith (file_type f) ''audio/'' \<Longrightarrow>
     handleFileSelect (f # others) s =
       s\<lparr>fileInfo_text := ''Please select an audio file'',
         processAudioButton_disabled := True, uploadedAudio := None\<rparr>
     \<and> processAudioButton_disabled (handleFileSelect (f # others) s)
     \<and> fileInfo_text (handleFileSelect (f # others) s) = ''Please select an audio file''
     \<and> uploadedAudio (handleFileSelect (f # others) s) = None"
  by (simp add: handleFileSelect_def)

theorem handleFileSelect_rejects_non_audio_witness:
  "uploadedAudio (handleFileSelect [song] fresh) = Some song
   \<and> processAudioButton_disabled (handleFileSelect [photo] (handleFileSelect [song] fresh))
   \<and> fileInfo_text (handleFileSelect [photo] (handleFileSelect [song] fresh))
       = ''Please select an audio file''
   \<and> uploadedAudio (handleFileSelect [photo] (handleFileSelect [song] fresh)) = None"
proof -
  have "\<not> startsWith (file_type photo) ''audio/''"
    by (simp add: startsWith_def photo_def)
  from handleFileSelect_rejects_non_audio [OF this, of "[]" "handleFileSelect [song] fresh"]
  have rejected:
    "processAudioButton_disabled (handleFileSelect [photo] (handleFileSelect [song] fresh))"
    "fileInfo_text (handleFileSelect [photo] (handleFileSelect [song] fresh))
       = ''Please select an audio file''"
    "uploadedAudio (handleFileSelect [photo] (handleFileSelect [song] fresh)) = None"
    by blast+
  have "uploadedAudio (handleFileSelect [song] fresh) = Some song"
    by (simp add: handleFileSelect_def song_def startsWith_def)
  with rejected show ?thesis by blast
qed

section \<open>Speaking the last translation\<close>

text \<open>
  C7. A synthesis request made while the synthesizer reports that it is speaking changes
  nothing: no utterance is handed over and none is taken away. When the synthesizer is idle and
  the last translation is not empty, exactly one utterance is handed over, with the last
  translation as its text, rate 0.9 and pitch 1.
\<close>

theorem speakTranslation_drops_or_speaks_once:
  "speakTranslation True s = s
   \<and> (truthy (lastTranslation s) \<longrightarrow>
        (\<exists>u. speakTranslation False s = s\<lparr>spoken := spoken s @ [u]\<rparr>
             \<and> u_text u = lastTranslation s \<and> u_rate u = 9 / 10 \<and> u_pitch u = 1
             \<and> u_lang u = (if translationLanguage_value s = ''en'' then ''en-US''
                            else translationLanguage_value s)))"
proof (intro conjI impI)
  show "speakTranslation True s = s"
    by (simp add: speakTranslation_def)
next
  assume "truthy (lastTranslation s)"
  then have "speakTranslation False s =
      s\<lparr>spoken := spoken s @
          [\<lparr>u_text = lastTranslation s,
            u_lang = (if translationLanguage_value s = ''en'' then ''en-US''
                      else translationLanguage_value s),
            u_rate = 9 / 10, u_pitch = 1\<rparr>]\<rparr>"
    by (simp add: speakTranslation_def)
  then show "\<exists>u. speakTranslation False s = s\<lparr>spoken := spoken s @ [u]\<rparr>
             \<and> u_text u = lastTranslation s \<and> u_rate u = 9 / 10 \<and> u_pitch u = 1
             \<and> u_lang u = (if translationLanguage_value s = ''en'' then ''en-US''
                            else translationLanguage_value s)"
    by (intro exI [of _ "\<lparr>u_text = lastTranslation s,
            u_lang = (if translationLanguage_value s = ''en'' then ''en-US''
                      else translationLanguage_value s),
            u_rate = 9 / 10, u_pitch = 1\<rparr>"]) simp
qed

theorem speakTranslation_drops_or_speaks_once_witness:
  "speakTranslation True (updateTranscript ''hello'' [] fresh)
     = updateTranscript ''hello'' [] fresh
   \<and> map u_rate (spoken (speakTranslation False (updateTranscript ''hello'' [] fresh)))
     = [9 / 10]
   \<and> map u_pitch (spoken (speakTranslation False (updateTranscript ''hello'' [] fresh))) = [1]
   \<and> map u_text (spoken (speakTranslation False (updateTranscript ''hello'' [] fresh)))
     = [''hello'']"
proof -
  have last: "lastTranslation (updateTranscript ''hello'' [] fresh) = ''hello''"
    and none: "spoken (updateTranscript ''hello'' [] fresh) = []"
    by (simp_all add: updateTranscript_def truthy_def fresh_def construct_def demo_page_def
        Let_def)
  have "truthy (lastTranslation (updateTranscript ''hello'' [] fresh))"
    by (simp add: last truthy_def)
  with speakTranslation_drops_or_speaks_once [of "updateTranscript ''hello'' [] fresh"]
  show ?thesis
    by (auto simp: last none)
qed

section \<open>Result events\<close>

lemma settle_all_loop:
  "length ts = length (filter isFinal rs) \<Longrightarrow>
     settle_all (onresult_loop rs f i) ts = LoopDone (f @ concat ts) (i @ interim_text rs)"
proof (induction rs arbitrary: f i ts)
  case Nil
  then show ?case by (simp add: interim_text_def)
next
  case (Cons r rs)
  show ?case
  proof (cases "isFinal r")
    case True
    with Cons.prems obtain t ts' where ts: "ts = t # ts'"
      and len: "length ts' = length (filter isFinal rs)"
      by (cases ts) auto
    from Cons.IH [OF len] True show ?thesis
      by (simp add: ts interim_text_def)
  next
    case False
    with Cons.prems have "length ts = length (filter isFinal rs)" by simp
    from Cons.IH [OF this] False show ?thesis
      by (simp add: interim_text_def)
  qed
qed

lemma submitted_loop:
  "length ts = length (filter isFinal rs) \<Longrightarrow>
     submitted (onresult_loop rs f i) ts = final_texts rs"
proof (induction rs arbitrary: f i ts)
  case Nil
  then show ?case by (simp add: final_texts_def)
next
  case (Cons r rs)
  show ?case
  proof (cases "isFinal r")
    case True
    with Cons.prems obtain t ts' where ts: "ts = t # ts'"
      and len: "length ts' = length (filter isFinal rs)"
      by (cases ts) auto
    from Cons.IH [OF len] True show ?thesis
      by (simp add: ts final_texts_def)
  next
    case False
    with Cons.prems have "length ts = length (filter isFinal rs)" by simp
    from Cons.IH [OF this] False show ?thesis
      by (simp add: final_texts_def)
  qed
qed

text \<open>With one translated text for each final result it visits, the handler reaches its end.\<close>

lemma onresult_complete:
  "length ts = length (final_texts (visited event)) \<Longrightarrow>
     onresult event ts s
       = Some (updateTranscript (concat ts) (interim_text (visited event)) s)"
  by (simp add: onresult_def onresult_start_def visited_def [symmetric] final_texts_def
      settle_all_loop)

lemma updateTranscript_transcript:
  "transcript (updateTranscript f i s) =
     (if f = [] then transcript s
      else transcript s @ transcript_block i (translationLanguage_text s) f)"
  by (simp add: updateTranscript_def truthy_def transcript_block_def Let_def)

lemma updateTranscript_display:
  "transcriptElement_text (updateTranscript f i s) =
     transcript (updateTranscript f i s) @ (if i = [] then [] else ''Speaking: '' @ i)"
  by (simp add: updateTranscript_def truthy_def Let_def)

lemma updateTranscript_language:
  "translationLanguage_text (updateTranscript f i s) = translationLanguage_text s"
  by (simp add: updateTranscript_def Let_def)

text \<open>
  A final result whose translation comes back empty, as it does when the service answers with
  status 200 and an empty \<^verbatim>\<open>translatedText\<close>: the result is submitted for translation, and
  nothing is appended to the transcript.
\<close>

theorem onresult_empty_translation_appends_nothing:
  "snd (translateToEnglish fresh ''hello'' (Body (service_body 200 []))) = JStr []
   \<and> submitted (onresult_start (final_result ''hello'')) [[]] = [''hello'']
   \<and> map_option transcript (onresult (final_result ''hello'') [[]] fresh) = Some []
   \<and> transcript fresh = []"
  by (simp add: translate_closed service_body_facts onresult_def onresult_start_def
      final_result_def updateTranscript_def truthy_def fresh_def construct_def demo_page_def
      Let_def)

text \<open>
  C2, as amended. For every recognition result event, each final result the handler visits is
  submitted for translation. Once the translations are in, they are concatenated in order and,
  when the concatenation is not empty, one block is appended to the transcript, in which the
  interim text of the event precedes the translated text; when it is empty the transcript
  stays as it was. The interim results alone never extend the transcript: they set the display
  to the transcript followed by one \<^verbatim>\<open>Speaking:\<close> line, which replaces what the display showed
  before and is absent when there is no interim text.
\<close>

theorem onresult_appends_block:
  assumes "length translations = length (final_texts (visited event))"
  shows "\<exists>s'. onresult event translations s = Some s'
     \<and> submitted (onresult_start event) translations = final_texts (visited event)
     \<and> transcript s' =
         (if concat translations = [] then transcript s
          else transcript s @
               transcript_block (interim_text (visited event)) (translationLanguage_text s)
                 (concat translations))
     \<and> transcriptElement_text s' =
         transcript s' @
         (if interim_text (visited event) = [] then []
          else ''Speaking: '' @ interim_text (visited event))"
proof -
  from assms
  have sub: "submitted (onresult_start event) translations = final_texts (visited event)"
    by (simp add: onresult_start_def visited_def [symmetric] final_texts_def submitted_loop)
  show ?thesis
    unfolding onresult_complete [OF assms]
    by (simp add: sub updateTranscript_transcript updateTranscript_display)
qed

theorem onresult_appends_block_witness:
  "map_option transcript (onresult phrase [''hello''] fresh)
     = Some ''Original: duniya\<newline>English Translation: hello\<newline>\<newline>''
   \<and> map_option transcriptElement_text (onresult phrase [''hello''] fresh)
     = Some (''Original: duniya\<newline>English Translation: hello\<newline>\<newline>'' @
             ''Speaking: duniya'')
   \<and> submitted (onresult_start phrase) [''hello''] = [''namaste'']"
proof -
  have v: "visited phrase = [\<lparr>first_transcript = ''namaste'', isFinal = True\<rparr>,
                 \<lparr>first_transcript = ''duniya'', isFinal = False\<rparr>]"
    by (simp add: visited_def phrase_def)
  have len: "length [''hello''] = length (final_texts (visited phrase))"
    by (simp add: v final_texts_def)
  have "transcript fresh = []" "translationLanguage_text fresh = ''English''"
    by (simp_all add: fresh_def construct_def demo_page_def Let_def)
  with onresult_appends_block [OF len, of fresh] show ?thesis
    by (auto simp: v final_texts_def interim_text_def transcript_block_def)
qed

section \<open>The transcript only grows\<close>

lemma updateTranscript_prefix: "prefix (transcript s) (transcript (updateTranscript f i s))"
  by (simp add: updateTranscript_transcript)

lemma handlers_keep_transcript:
  "transcript (startRecording start s) = transcript s"
  "transcript (stopRecording stop s) = transcript s"
  "transcript (languageSelect_change v s) = transcript s"
  "transcript (translationLanguage_change v label s) = transcript s"
  "transcript (handleFileSelect files s) = transcript s"
  "transcript (speakTranslation speaking s) = transcript s"
  "transcript (onnomatch s) = transcript s"
  "transcript (onerror error stop s) = transcript s"
  by (simp_all add: startRecording_def startRecording_try_def stopRecording_def
      stopRecording_try_def languageSelect_change_def translationLanguage_change_def
      handleFileSelect_def speakTranslation_def onnomatch_def onerror_def Let_def
      split: host_call.splits list.splits)

lemma task_steps_prefix:
  "prefix (transcript (sys c)) (transcript (sys (translation_settles k t task c)))"
  "transcript (sys (read_settles k b task c)) = transcript (sys c)"
  "transcript (sys (decode_settles k b task c)) = transcript (sys c)"
  "transcript (sys (timer_fires k task c)) = transcript (sys c)"
  by (cases task;
      simp add: finish_task_def suspend_task_def audio_failed_def updateTranscript_prefix
        split: progress.splits option.splits)+

lemma turn_step_prefix: "prefix (transcript (sys c)) (transcript (sys (turn_step t c)))"
  by (cases t)
    (simp_all add: handlers_keep_transcript processAudioFile_def on_task_def task_steps_prefix
      updateTranscript_prefix Let_def split: option.splits host_call.splits progress.splits)

text \<open>
  C8. The accumulated transcript only grows: over every turn of the page (a user action, a
  recognizer callback, a handler resumed), and so over every sequence of turns, the transcript
  before is a prefix of the transcript after.
\<close>

theorem transcript_only_grows:
  "prefix (transcript (sys c)) (transcript (sys (turn_step t c)))
   \<and> prefix (transcript (sys c)) (transcript (sys (run_turns ts c)))"
proof
  show "prefix (transcript (sys c)) (transcript (sys (turn_step t c)))"
    by (rule turn_step_prefix)
  show "prefix (transcript (sys c)) (transcript (sys (run_turns ts c)))"
  proof (induction ts arbitrary: c)
    case Nil
    show ?case by simp
  next
    case (Cons u us)
    have "prefix (transcript (sys c)) (transcript (sys (turn_step u c)))"
      by (rule turn_step_prefix)
    also have "prefix \<dots> (transcript (sys (run_turns us (turn_step u c))))"
      by (rule Cons.IH)
    finally show ?case by simp
  qed
qed

theorem transcript_only_grows_witness:
  "transcript (sys idle) = []
   \<and> prefix (transcript (sys idle))
       (transcript (sys (turn_step (RecognitionResult phrase) idle)))
   \<and> transcript (sys (run_turns
         [RecognitionResult (final_result ''ek''), TranslationSettles 0 ''one''] idle))
       = ''Original: \<newline>English Translation: one\<newline>\<newline>''
   \<and> prefix (transcript (sys idle))
       (transcript (sys (run_turns
         [RecognitionResult (final_result ''ek''), TranslationSettles 0 ''one''] idle)))"
proof -
  have "transcript (sys (run_turns
         [RecognitionResult (final_result ''ek''), TranslationSettles 0 ''one''] idle))
       = ''Original: \<newline>English Translation: one\<newline>\<newline>''"
    by (simp add: idle_def fresh_def construct_def demo_page_def final_result_def
      onresult_start_def on_task_def finish_task_def remove_task_def
      updateTranscript_def truthy_def Let_def)
  moreover have "transcript (sys idle) = []"
    by (simp add: idle_def fresh_def construct_def Let_def)
  ultimately show ?thesis
    using transcript_only_grows [of idle "RecognitionResult phrase"
        "[RecognitionResult (final_result ''ek''), TranslationSettles 0 ''one'']"]
    by simp
qed

section \<open>The order of the blocks\<close>

text \<open>
  Two final results are delivered one after the other, and the translation of the second
  settles before that of the first: the block of the second result comes first in the
  transcript.
\<close>

theorem later_result_overtakes:
  "transcript (sys (run_turns
      [RecognitionResult (final_result ''ek''), RecognitionResult (final_result ''do''),
       TranslationSettles 1 ''two'', TranslationSettles 0 ''one''] idle))
   = ''Original: \<newline>English Translation: two\<newline>\<newline>'' @
     ''Original: \<newline>English Translation: one\<newline>\<newline>''"
  by (simp add: idle_def fresh_def construct_def demo_page_def final_result_def
      onresult_start_def on_task_def finish_task_def suspend_task_def remove_task_def
      updateTranscript_def truthy_def Let_def)

lemma run_turns_append: "run_turns (xs @ ys) c = run_turns ys (run_turns xs c)"
  by (induction xs arbitrary: c) simp_all

lemma settle_at:
  "turn_step (TranslationSettles (length before) t)
      \<lparr>sys = s, tasks = before @ TranslatingResult text rs f i # after\<rparr>
   = resumed (onresult_loop rs (f @ t) i) s before after"
  by (simp add: on_task_def finish_task_def suspend_task_def remove_task_def resumed_def
      split: progress.splits)

lemma settles_run:
  "length tr = length (filter isFinal rs) \<Longrightarrow>
     run_turns (settles (length before) tr) (resumed (onresult_loop rs f i) s before after)
     = \<lparr>sys = updateTranscript (f @ concat tr) (i @ interim_text rs) s,
        tasks = before @ after\<rparr>"
proof (induction rs arbitrary: f i tr)
  case Nil
  then show ?case by (simp add: settles_def resumed_def interim_text_def)
next
  case (Cons r rs)
  show ?case
  proof (cases "isFinal r")
    case True
    with Cons.prems obtain t tr' where tr: "tr = t # tr'"
      and len: "length tr' = length (filter isFinal rs)"
      by (cases tr) auto
    have "run_turns (settles (length before) tr)
            (resumed (onresult_loop (r # rs) f i) s before after)
          = run_turns (settles (length before) tr')
              (resumed (onresult_loop rs (f @ t) i) s before after)"
      using True by (simp add: tr settles_def resumed_def settle_at del: turn_step.simps)
    also have "\<dots> = \<lparr>sys = updateTranscript ((f @ t) @ concat tr') (i @ interim_text rs) s,
        tasks = before @ after\<rparr>"
      by (rule Cons.IH [OF len])
    finally show ?thesis using True by (simp add: tr interim_text_def)
  next
    case False
    with Cons.prems have "length tr = length (filter isFinal rs)" by simp
    from Cons.IH [OF this, of f "i @ first_transcript r"] False show ?thesis
      by (simp add: interim_text_def)
  qed
qed

lemma deliver:
  "turn_step (RecognitionResult event) \<lparr>sys = s, tasks = ts\<rparr>
     = resumed (onresult_start event) s ts []"
  by (simp add: resumed_def split: progress.splits)

text \<open>An event with a final result among those visited suspends its handler.\<close>

lemma onresult_loop_suspends:
  "filter isFinal rs \<noteq> [] \<Longrightarrow> \<exists>t. onresult_loop rs f i = Suspended t"
  by (induction rs arbitrary: i) auto

lemma settles_event:
  assumes "length tr = length (final_texts (visited event))"
  shows "run_turns (settles (length before) tr) (resumed (onresult_start event) s before after)
     = \<lparr>sys = updateTranscript (concat tr) (interim_text (visited event)) s,
        tasks = before @ after\<rparr>"
  using settles_run [of tr "visited event" before "[]" "[]" s after] assms
  by (simp add: onresult_start_def visited_def final_texts_def)

lemma suspended_of_translations:
  assumes "length tr = length (final_texts (visited event))" "concat tr \<noteq> []"
  obtains t where "onresult_start event = Suspended t"
proof -
  from assms have "filter isFinal (visited event) \<noteq> []"
    by (auto simp: final_texts_def)
  then show ?thesis
    using onresult_loop_suspends [of "visited event" "[]" "[]"] that
    by (auto simp: onresult_start_def visited_def)
qed

lemma two_events_delivered:
  assumes "onresult_start e1 = Suspended t1" "onresult_start e2 = Suspended t2"
  shows "run_turns [RecognitionResult e1, RecognitionResult e2] \<lparr>sys = s, tasks = ts\<rparr>
           = resumed (onresult_start e1) s ts [t2]"
    and "run_turns [RecognitionResult e1, RecognitionResult e2] \<lparr>sys = s, tasks = ts\<rparr>
           = resumed (onresult_start e2) s (ts @ [t1]) []"
  using assms by (simp_all add: resumed_def)

text \<open>
  C9, as amended. Take two recognition result events delivered in sequence, each with final
  results among those it visits and with translations whose concatenation is not empty. When
  the translations of the first settle before those of the second, whether the second event is
  delivered after they settle or before, the transcript gains both blocks in the order of the
  events, after what was there. When the translations of the second settle first, the block of
  the second event is appended first.
\<close>

theorem results_in_settle_order:
  assumes "length tr1 = length (final_texts (visited e1))" and "concat tr1 \<noteq> []"
    and "length tr2 = length (final_texts (visited e2))" and "concat tr2 \<noteq> []"
  shows "(\<exists>s1 s2. onresult e1 tr1 s = Some s1 \<and> onresult e2 tr2 s1 = Some s2
          \<and> transcript s2 =
              transcript s
              @ transcript_block (interim_text (visited e1)) (translationLanguage_text s)
                  (concat tr1)
              @ transcript_block (interim_text (visited e2)) (translationLanguage_text s)
                  (concat tr2))
   \<and> transcript (sys (run_turns
         (RecognitionResult e1 # settles (length (tasks c)) tr1
          @ RecognitionResult e2 # settles (length (tasks c)) tr2) c))
       = transcript (sys c)
         @ transcript_block (interim_text (visited e1)) (translationLanguage_text (sys c))
             (concat tr1)
         @ transcript_block (interim_text (visited e2)) (translationLanguage_text (sys c))
             (concat tr2)
   \<and> transcript (sys (run_turns
         ([RecognitionResult e1, RecognitionResult e2]
          @ settles (length (tasks c)) tr1 @ settles (length (tasks c)) tr2) c))
       = transcript (sys c)
         @ transcript_block (interim_text (visited e1)) (translationLanguage_text (sys c))
             (concat tr1)
         @ transcript_block (interim_text (visited e2)) (translationLanguage_text (sys c))
             (concat tr2)
   \<and> transcript (sys (run_turns
         ([RecognitionResult e1, RecognitionResult e2]
          @ settles (Suc (length (tasks c))) tr2 @ settles (length (tasks c)) tr1) c))
       = transcript (sys c)
         @ transcript_block (interim_text (visited e2)) (translationLanguage_text (sys c))
             (concat tr2)
         @ transcript_block (interim_text (visited e1)) (translationLanguage_text (sys c))
             (concat tr1)"
proof -
  obtain s0 ts where c: "c = \<lparr>sys = s0, tasks = ts\<rparr>" by (cases c) simp
  obtain t1 where t1: "onresult_start e1 = Suspended t1"
    using assms(1,2) by (rule suspended_of_translations)
  obtain t2 where t2: "onresult_start e2 = Suspended t2"
    using assms(3,4) by (rule suspended_of_translations)
  let ?u1 = "updateTranscript (concat tr1) (interim_text (visited e1))"
  let ?u2 = "updateTranscript (concat tr2) (interim_text (visited e2))"
  have one_after_other:
    "run_turns (RecognitionResult e1 # settles (length ts) tr1
          @ RecognitionResult e2 # settles (length ts) tr2) \<lparr>sys = s0, tasks = ts\<rparr>
       = \<lparr>sys = ?u2 (?u1 s0), tasks = ts\<rparr>"
    using settles_event [OF assms(1), of ts s0 "[]"]
      settles_event [OF assms(3), of ts "?u1 s0" "[]"]
    by (simp add: run_turns_append deliver del: turn_step.simps)
  have in_order:
    "run_turns ([RecognitionResult e1, RecognitionResult e2]
          @ settles (length ts) tr1 @ settles (length ts) tr2) \<lparr>sys = s0, tasks = ts\<rparr>
       = \<lparr>sys = ?u2 (?u1 s0), tasks = ts\<rparr>"
  proof -
    have "run_turns (settles (length ts) tr1)
            (run_turns [RecognitionResult e1, RecognitionResult e2] \<lparr>sys = s0, tasks = ts\<rparr>)
          = \<lparr>sys = ?u1 s0, tasks = ts @ [t2]\<rparr>"
      unfolding two_events_delivered(1) [OF t1 t2]
      by (rule settles_event [OF assms(1)])
    also have "\<dots> = resumed (onresult_start e2) (?u1 s0) ts []"
      by (simp add: t2 resumed_def)
    finally have "run_turns (settles (length ts) tr1)
            (run_turns [RecognitionResult e1, RecognitionResult e2] \<lparr>sys = s0, tasks = ts\<rparr>)
          = resumed (onresult_start e2) (?u1 s0) ts []" .
    with settles_event [OF assms(3), of ts "?u1 s0" "[]"] show ?thesis
      by (simp only: run_turns_append append_Nil2)
  qed
  have overtaking:
    "run_turns ([RecognitionResult e1, RecognitionResult e2]
          @ settles (Suc (length ts)) tr2 @ settles (length ts) tr1) \<lparr>sys = s0, tasks = ts\<rparr>
       = \<lparr>sys = ?u1 (?u2 s0), tasks = ts\<rparr>"
  proof -
    have "run_turns (settles (Suc (length ts)) tr2)
            (run_turns [RecognitionResult e1, RecognitionResult e2] \<lparr>sys = s0, tasks = ts\<rparr>)
          = \<lparr>sys = ?u2 s0, tasks = (ts @ [t1]) @ []\<rparr>"
      unfolding two_events_delivered(2) [OF t1 t2]
      using settles_event [OF assms(3), of "ts @ [t1]" s0 "[]"] by simp
    also have "\<dots> = resumed (onresult_start e1) (?u2 s0) ts []"
      by (simp add: t1 resumed_def)
    finally have "run_turns (settles (Suc (length ts)) tr2)
            (run_turns [RecognitionResult e1, RecognitionResult e2] \<lparr>sys = s0, tasks = ts\<rparr>)
          = resumed (onresult_start e1) (?u2 s0) ts []" .
    with settles_event [OF assms(1), of ts "?u2 s0" "[]"] show ?thesis
      by (simp only: run_turns_append append_Nil2)
  qed
  have handled: "\<exists>s1 s2. onresult e1 tr1 s = Some s1 \<and> onresult e2 tr2 s1 = Some s2
          \<and> transcript s2 =
              transcript s
              @ transcript_block (interim_text (visited e1)) (translationLanguage_text s)
                  (concat tr1)
              @ transcript_block (interim_text (visited e2)) (translationLanguage_text s)
                  (concat tr2)"
    using assms
    by (simp add: onresult_complete updateTranscript_transcript updateTranscript_language
        del: concat_eq_Nil_conv)
  from assms(2,4) handled one_after_other in_order overtaking show ?thesis
    unfolding c
    by (simp add: updateTranscript_transcript updateTranscript_language
        del: run_turns.simps concat_eq_Nil_conv)
qed

theorem results_in_settle_order_witness:
  "(\<exists>s1 s2. onresult (final_result ''ek'') [''one''] fresh = Some s1
       \<and> onresult phrase [''hello''] s1 = Some s2
       \<and> transcript s2 =
           ''Original: \<newline>English Translation: one\<newline>\<newline>'' @
           ''Original: duniya\<newline>English Translation: hello\<newline>\<newline>'')
   \<and> transcript (sys (run_turns
        [RecognitionResult (final_result ''ek''), TranslationSettles 0 ''one'',
         RecognitionResult phrase, TranslationSettles 0 ''hello''] idle))
     = ''Original: \<newline>English Translation: one\<newline>\<newline>'' @
       ''Original: duniya\<newline>English Translation: hello\<newline>\<newline>''
   \<and> transcript (sys (run_turns
        [RecognitionResult (final_result ''ek''), RecognitionResult phrase,
         TranslationSettles 0 ''one'', TranslationSettles 0 ''hello''] idle))
     = ''Original: \<newline>English Translation: one\<newline>\<newline>'' @
       ''Original: duniya\<newline>English Translation: hello\<newline>\<newline>''
   \<and> transcript (sys (run_turns
        [RecognitionResult (final_result ''ek''), RecognitionResult phrase,
         TranslationSettles 1 ''hello'', TranslationSettles 0 ''one''] idle))
     = ''Original: duniya\<newline>English Translation: hello\<newline>\<newline>'' @
       ''Original: \<newline>English Translation: one\<newline>\<newline>''"
proof -
  have v: "visited (final_result ''ek'') = [\<lparr>first_transcript = ''ek'', isFinal = True\<rparr>]"
    "visited phrase = [\<lparr>first_transcript = ''namaste'', isFinal = True\<rparr>,
                 \<lparr>first_transcript = ''duniya'', isFinal = False\<rparr>]"
    by (simp_all add: visited_def phrase_def final_result_def)
  have page: "transcript fresh = []" "translationLanguage_text fresh = ''English''"
    "tasks idle = []" "sys idle = fresh"
    by (simp_all add: idle_def fresh_def construct_def demo_page_def Let_def)
  have "length [''one''] = length (final_texts (visited (final_result ''ek'')))"
    "concat [''one''] \<noteq> []"
    "length [''hello''] = length (final_texts (visited phrase))"
    "concat [''hello''] \<noteq> []"
    by (simp_all add: v final_texts_def)
  from results_in_settle_order [OF this, of fresh idle]
  show ?thesis
    by (simp add: v page settles_def final_texts_def interim_text_def transcript_block_def
        del: run_turns.simps)
qed

end
